theory Spec2Isabelle
  imports Complex_Main
begin

section \<open>Data model (src/trading/models.py)\<close>

text \<open>
  Python floats are idealised as \<^typ>\<open>real\<close> (rounding is not modelled); Python ints
  as \<^typ>\<open>int\<close>. The enums are \<open>str\<close> enums: each member carries a string
  \<open>.value\<close>, which the balance manager compares and formats into dictionary keys.
\<close>

datatype OrderSide = BUY | SELL

datatype OrderType = MARKET | LIMIT

datatype PositionSide = LONG | SHORT

datatype OrderStatus = PENDING | FILLED | CANCELLED | PARTIALLY_FILLED

fun OrderSide_value :: "OrderSide \<Rightarrow> string" where
  "OrderSide_value BUY = ''BUY''"
| "OrderSide_value SELL = ''SELL''"

fun PositionSide_value :: "PositionSide \<Rightarrow> string" where
  "PositionSide_value LONG = ''LONG''"
| "PositionSide_value SHORT = ''SHORT''"

text \<open>
  \<open>Order\<close>. Fields shared with \<open>Position\<close> carry the prefix \<open>o_\<close>. The id is the
  uuid drawn by the constructor, modelled as a number. \<open>o_leverage\<close> is the attribute that
  \<open>create_order\<close> attaches after construction; \<open>None\<close> is an order without the attribute
  (\<open>hasattr(order, 'leverage')\<close> false). The two timestamps are left out: no function
  below reads them.
\<close>

record Order =
  order_id :: nat
  o_symbol :: string
  o_side :: OrderSide
  position_side :: PositionSide
  order_type :: OrderType
  o_quantity :: real
  price :: real
  executed_price :: real
  executed_quantity :: real
  status :: OrderStatus
  o_take_profit_price :: "real option"
  o_stop_loss_price :: "real option"
  commission :: real
  o_leverage :: "int option"

record Position =
  symbol :: string
  side :: PositionSide
  quantity :: real
  entry_price :: real
  current_price :: real
  unrealized_pnl :: real
  realized_pnl :: real
  leverage :: int
  margin :: real
  take_profit_price :: "real option"
  stop_loss_price :: "real option"

record Balance =
  asset :: string
  free :: real
  locked :: real
  total_balance :: real

section \<open>Settings (src/config/settings.py)\<close>

definition DEFAULT_LEVERAGE :: int where
  "DEFAULT_LEVERAGE = 10"

definition DEFAULT_BALANCE :: real where
  "DEFAULT_BALANCE = 1000"

definition COMMISSION_RATE :: real where
  "COMMISSION_RATE = 7 / 10000"

definition MIN_COMMISSION :: real where
  "MIN_COMMISSION = 4 / 100"

text \<open>The dictionary \<open>SLIPPAGE_CONFIG\<close>, in the order it is written.\<close>

definition SLIPPAGE_CONFIG :: "(real \<times> real) list" where
  "SLIPPAGE_CONFIG = [(0, 1 / 10000), (100, 5 / 10000), (1000, 1 / 1000), (10000, 2 / 1000)]"

text \<open>
  \<open>sorted(cls.SLIPPAGE_CONFIG.items(), reverse=True)\<close>: the keys are distinct, so the
  descending order of the pairs is the descending order of the thresholds.
\<close>

definition sorted_reverse :: "(real \<times> real) list \<Rightarrow> (real \<times> real) list" where
  "sorted_reverse items = rev (sort_key fst items)"

text \<open>The loop of \<open>get_slippage\<close>; \<open>dflt\<close> is the value returned when it falls through.\<close>

fun get_slippage_loop :: "(real \<times> real) list \<Rightarrow> real \<Rightarrow> real \<Rightarrow> real" where
  "get_slippage_loop [] volume_usdt dflt = dflt"
| "get_slippage_loop ((threshold, slippage) # rest) volume_usdt dflt =
     (if volume_usdt \<ge> threshold then slippage else get_slippage_loop rest volume_usdt dflt)"

text \<open>
  \<open>cls.SLIPPAGE_CONFIG[0]\<close> after the loop: the key \<open>0\<close> is in the dictionary, so
  the lookup does not raise.
\<close>

definition get_slippage :: "real \<Rightarrow> real" where
  "get_slippage volume_usdt =
     get_slippage_loop (sorted_reverse SLIPPAGE_CONFIG) volume_usdt
       (case map_of SLIPPAGE_CONFIG 0 of Some s \<Rightarrow> s | None \<Rightarrow> 0)"

section \<open>Balance manager (src/trading/balance_manager.py)\<close>

text \<open>
  \<open>Position\<close> objects are shared: the book \<open>positions\<close> refers to them, and so does the
  list that the TP/SL scan hands to the candle loop, which reads a position's quantity
  after earlier iterations have changed it. The model therefore has a store
  \<open>heap\<close> of position objects (an object's address is its index; objects are never
  freed) and the book is the dictionary from key to address, as an association list in
  insertion order.
\<close>

text \<open>\<open>del d[k]\<close> and \<open>d[k] = v\<close> on a dictionary kept as an association list.\<close>

definition dict_del :: "'k \<Rightarrow> ('k \<times> 'v) list \<Rightarrow> ('k \<times> 'v) list" where
  "dict_del k d = filter (\<lambda>(k', _). k' \<noteq> k) d"

definition dict_set :: "'k \<Rightarrow> 'v \<Rightarrow> ('k \<times> 'v) list \<Rightarrow> ('k \<times> 'v) list" where
  "dict_set k v d =
     (if k \<in> fst ` set d then map (\<lambda>(k', v'). if k' = k then (k', v) else (k', v')) d
      else d @ [(k, v)])"

record BalanceManager =
  initial_balance :: real
  balances :: "string \<rightharpoonup> Balance"
  positions :: "(string \<times> nat) list"
  heap :: "Position list"
  total_pnl :: real

text \<open>
  \<open>__init__\<close>: \<open>initial_balance or settings.DEFAULT_BALANCE\<close> takes the default for
  \<open>None\<close> and for \<open>0.0\<close>; \<open>locked\<close> keeps the dataclass default \<open>0.0\<close>.
\<close>

definition BalanceManager_init :: "real option \<Rightarrow> BalanceManager" where
  "BalanceManager_init initial =
     (let ib = (case initial of None \<Rightarrow> DEFAULT_BALANCE
                | Some b \<Rightarrow> if b = 0 then DEFAULT_BALANCE else b)
      in \<lparr> initial_balance = ib,
           balances = [''USDT'' \<mapsto> \<lparr> asset = ''USDT'', free = ib, locked = 0, total_balance = ib \<rparr>],
           positions = [],
           heap = [],
           total_pnl = 0 \<rparr>)"

definition get_balance :: "BalanceManager \<Rightarrow> string \<Rightarrow> Balance option" where
  "get_balance bm a = balances bm a"

text \<open>\<open>get_position\<close> returns the reference stored under the key, if any.\<close>

definition get_position :: "BalanceManager \<Rightarrow> string \<Rightarrow> nat option" where
  "get_position bm smb = map_of (positions bm) smb"

definition calculate_commission :: "real \<Rightarrow> real" where
  "calculate_commission order_value = max (order_value * COMMISSION_RATE) MIN_COMMISSION"

definition calculate_slippage :: "real \<Rightarrow> real \<Rightarrow> real" where
  "calculate_slippage order_value cur_price = cur_price * get_slippage order_value"

text \<open>
  The message strings of the source are values of \<open>message\<close>; the two numbers of the
  insufficient-balance message are its arguments (required, available).
\<close>

datatype message =
    InvalidSide
  | InvalidOrderType
  | InvalidQuantity
  | NoUSDTBalance
  | InsufficientBalance real real
  | OrderCreatedSuccessfully
  | ErrorCreatingOrder
  | OrderNotFound
  | OrderCancelledSuccessfully
  | NoMessage

text \<open>\<open>leverage or settings.DEFAULT_LEVERAGE\<close>: the default for \<open>None\<close> and for \<open>0\<close>.\<close>

definition leverage_or_default :: "int option \<Rightarrow> int" where
  "leverage_or_default lev =
     (case lev of None \<Rightarrow> DEFAULT_LEVERAGE | Some l \<Rightarrow> if l = 0 then DEFAULT_LEVERAGE else l)"

definition can_place_order ::
  "BalanceManager \<Rightarrow> string \<Rightarrow> string \<Rightarrow> real \<Rightarrow> real \<Rightarrow> int option \<Rightarrow> bool \<times> message" where
  "can_place_order bm smb sd qty prc lev =
     (let lv = leverage_or_default lev;
          order_value = qty * prc;
          required_margin = order_value / of_int lv;
          comm = calculate_commission order_value
      in case balances bm ''USDT'' of
           None \<Rightarrow> (False, NoUSDTBalance)
         | Some usdt_balance \<Rightarrow>
             (let total_required = required_margin + comm
              in if free usdt_balance < total_required
                 then (False, InsufficientBalance total_required (free usdt_balance))
                 else (True, NoMessage)))"

definition position_key :: "Order \<Rightarrow> string" where
  "position_key ord = o_symbol ord @ ''_'' @ PositionSide_value (position_side ord)"

text \<open>
  \<open>execute_order\<close> returns the success flag, the manager and the order as the call
  leaves them. The \<open>try\<close> block can raise in three places, each of which ends in
  \<open>return False\<close>: the division by \<open>order.leverage\<close> (zero), the lookup
  \<open>self.balances["USDT"]\<close> (both before anything is written), and the division by
  \<open>total_quantity\<close> in the adding branch (after the balance has been written).
\<close>

definition execute_order ::
  "BalanceManager \<Rightarrow> Order \<Rightarrow> real \<Rightarrow> real \<Rightarrow> bool \<times> BalanceManager \<times> Order" where
  "execute_order bm ord exec_price exec_qty =
     (let order_value = exec_qty * exec_price;
          comm = calculate_commission order_value
      in if o_leverage ord = Some 0 then (False, bm, ord)
         else
         (let required_margin =
                (case o_leverage ord of Some l \<Rightarrow> order_value / of_int l
                 | None \<Rightarrow> order_value / of_int DEFAULT_LEVERAGE)
          in case balances bm ''USDT'' of
               None \<Rightarrow> (False, bm, ord)
             | Some usdt0 \<Rightarrow>
               (let f1 = free usdt0 - (required_margin + comm);
                    usdt1 = usdt0\<lparr>free := f1, total_balance := f1 + locked usdt0\<rparr>;
                    bm1 = bm\<lparr>balances := (balances bm)(''USDT'' \<mapsto> usdt1)\<rparr>;
                    key = position_key ord;
                    ord' = ord\<lparr>executed_price := exec_price, executed_quantity := exec_qty,
                               commission := comm, status := FILLED\<rparr>
                in case map_of (positions bm1) key of
                     Some a \<Rightarrow>
                       (let position = heap bm1 ! a
                        in if OrderSide_value (o_side ord) = PositionSide_value (position_side ord)
                           then
                             (let total_quantity = quantity position + exec_qty;
                                  total_value = quantity position * entry_price position
                                                + exec_qty * exec_price
                              in if total_quantity = 0 then (False, bm1, ord)
                                 else (True,
                                       bm1\<lparr>heap := (heap bm1)[a := position
                                              \<lparr>entry_price := total_value / total_quantity,
                                               quantity := total_quantity\<rparr>]\<rparr>,
                                       ord'))
                           else
                             (let q' = quantity position - exec_qty;
                                  position1 = position\<lparr>quantity := q'\<rparr>
                              in if q' \<le> 0
                                 then
                                   (let pnl0 = (exec_price - entry_price position1) * exec_qty;
                                        realized = (if PositionSide_value (position_side ord) = ''SHORT''
                                                    then - pnl0 else pnl0);
                                        position2 = position1\<lparr>realized_pnl :=
                                                       realized_pnl position1 + realized\<rparr>;
                                        f2 = f1 + margin position2;
                                        usdt2 = usdt1\<lparr>free := f2, total_balance := f2 + locked usdt1\<rparr>
                                    in (True,
                                        bm1\<lparr>balances := (balances bm)(''USDT'' \<mapsto> usdt2),
                                            total_pnl := total_pnl bm1 + realized,
                                            heap := (heap bm1)[a := position2],
                                            positions := dict_del key (positions bm1)\<rparr>,
                                        ord'))
                                 else (True, bm1\<lparr>heap := (heap bm1)[a := position1]\<rparr>, ord')))
                   | None \<Rightarrow>
                       (let position = \<lparr> symbol = o_symbol ord,
                                         side = position_side ord,
                                         quantity = exec_qty,
                                         entry_price = exec_price,
                                         current_price = exec_price,
                                         unrealized_pnl = 0,
                                         realized_pnl = 0,
                                         leverage = DEFAULT_LEVERAGE,
                                         margin = required_margin,
                                         take_profit_price = o_take_profit_price ord,
                                         stop_loss_price = o_stop_loss_price ord \<rparr>
                        in (True,
                            bm1\<lparr>heap := heap bm1 @ [position],
                                positions := positions bm1 @ [(key, length (heap bm1))]\<rparr>,
                            ord')))))"


text \<open>
  \<open>update_position_prices\<close>: the loop over \<open>self.positions.items()\<close> writes the mark
  price and the unrealized PnL into every position object of the symbol.
\<close>

definition mark_position :: "real \<Rightarrow> Position \<Rightarrow> Position" where
  "mark_position cur_price p =
     p\<lparr>current_price := cur_price,
       unrealized_pnl :=
         (if PositionSide_value (side p) = ''LONG''
          then (cur_price - entry_price p) * quantity p
          else (entry_price p - cur_price) * quantity p)\<rparr>"

definition update_position_prices :: "BalanceManager \<Rightarrow> string \<Rightarrow> real \<Rightarrow> BalanceManager" where
  "update_position_prices bm smb cur_price =
     fold (\<lambda>(k, a) b.
             if symbol (heap b ! a) = smb
             then b\<lparr>heap := (heap b)[a := mark_position cur_price (heap b ! a)]\<rparr>
             else b)
          (positions bm) bm"

text \<open>
  \<open>check_tp_sl\<close> of the balance manager. \<open>if position.take_profit_price:\<close> is false
  for \<open>None\<close> and for \<open>0.0\<close>. One flag \<open>should_close\<close> collects both tests, and a
  position is appended once.
\<close>

definition truthy :: "real option \<Rightarrow> bool" where
  "truthy x = (case x of None \<Rightarrow> False | Some v \<Rightarrow> v \<noteq> 0)"

definition check_tp_sl :: "BalanceManager \<Rightarrow> string \<Rightarrow> real \<Rightarrow> real \<Rightarrow> real \<Rightarrow> nat list" where
  "check_tp_sl bm smb cur_price high low =
     concat (map (\<lambda>(k, a).
        (let p = heap bm ! a
         in if symbol p \<noteq> smb then []
            else
              (let should_close0 = False;
                   should_close1 =
                     (if truthy (take_profit_price p)
                      then (if PositionSide_value (side p) = ''LONG''
                               \<and> high \<ge> the (take_profit_price p) then True
                            else if PositionSide_value (side p) = ''SHORT''
                               \<and> low \<le> the (take_profit_price p) then True
                            else should_close0)
                      else should_close0);
                   should_close2 =
                     (if truthy (stop_loss_price p)
                      then (if PositionSide_value (side p) = ''LONG''
                               \<and> low \<le> the (stop_loss_price p) then True
                            else if PositionSide_value (side p) = ''SHORT''
                               \<and> high \<ge> the (stop_loss_price p) then True
                            else should_close1)
                      else should_close1)
               in if should_close2 then [a] else [])))
        (positions bm))"

section \<open>Order engine (src/trading/order_engine.py)\<close>

text \<open>
  \<open>uuid_next\<close> stands for \<open>uuid.uuid4()\<close>: the number of ids drawn so far is the next
  id, so every \<open>Order(...)\<close> constructed gets an id no earlier order has.
\<close>

record OrderEngine =
  balance_manager :: BalanceManager
  orders :: "(nat \<times> Order) list"
  order_history :: "Order list"
  uuid_next :: nat

definition OrderEngine_init :: "BalanceManager \<Rightarrow> OrderEngine" where
  "OrderEngine_init bm =
     \<lparr> balance_manager = bm, orders = [], order_history = [], uuid_next = 0 \<rparr>"

text \<open>\<open>OrderSide(side)\<close> and \<open>OrderType(order_type)\<close> raise on any other string.\<close>

definition OrderSide_of :: "string \<Rightarrow> OrderSide option" where
  "OrderSide_of s = (if s = ''BUY'' then Some BUY else if s = ''SELL'' then Some SELL else None)"

definition OrderType_of :: "string \<Rightarrow> OrderType option" where
  "OrderType_of s =
     (if s = ''MARKET'' then Some MARKET else if s = ''LIMIT'' then Some LIMIT else None)"

text \<open>
  \<open>create_order\<close> returns the triple \<open>(success, message, order)\<close> and the engine. The
  uuid is drawn when the \<open>Order\<close> is constructed, after the three validations.
\<close>

definition create_order ::
  "OrderEngine \<Rightarrow> string \<Rightarrow> string \<Rightarrow> real \<Rightarrow> string \<Rightarrow> real \<Rightarrow> real option \<Rightarrow> real option
     \<Rightarrow> int option \<Rightarrow> (bool \<times> message \<times> Order option) \<times> OrderEngine" where
  "create_order eng smb sd qty otype prc take_profit stop_loss lev =
     (if sd \<notin> set [''BUY'', ''SELL''] then ((False, InvalidSide, None), eng)
      else if otype \<notin> set [''MARKET'', ''LIMIT''] then ((False, InvalidOrderType, None), eng)
      else if qty \<le> 0 then ((False, InvalidQuantity, None), eng)
      else
        (let pside = (if sd = ''BUY'' then LONG else SHORT);
             lv = leverage_or_default lev;
             execution_price = (if otype = ''MARKET'' then 0 else prc)
         in case (OrderSide_of sd, OrderType_of otype) of
              (Some oside, Some ot) \<Rightarrow>
                (let ord = \<lparr> order_id = uuid_next eng,
                             o_symbol = smb,
                             o_side = oside,
                             position_side = pside,
                             order_type = ot,
                             o_quantity = qty,
                             price = prc,
                             executed_price = 0,
                             executed_quantity = 0,
                             status = PENDING,
                             o_take_profit_price = take_profit,
                             o_stop_loss_price = stop_loss,
                             commission = 0,
                             o_leverage = Some lv \<rparr>;
                     eng1 = eng\<lparr>uuid_next := Suc (uuid_next eng)\<rparr>;
                     (can_place, error_msg) =
                        can_place_order (balance_manager eng1) smb sd qty execution_price (Some lv)
                 in if \<not> can_place then ((False, error_msg, None), eng1)
                    else ((True, OrderCreatedSuccessfully, Some ord),
                          eng1\<lparr>orders := dict_set (order_id ord) ord (orders eng1)\<rparr>))
            | _ \<Rightarrow> ((False, ErrorCreatingOrder, None), eng)))"

text \<open>
  \<open>execute_market_order\<close>: the order object that \<open>execute_order\<close> has filled is the one
  appended to the history. When \<open>execute_order\<close> returns \<open>False\<close> the manager keeps
  whatever that call had written.
\<close>

definition execute_market_order ::
  "OrderEngine \<Rightarrow> Order \<Rightarrow> real \<Rightarrow> real \<Rightarrow> real \<Rightarrow> bool \<times> OrderEngine" where
  "execute_market_order eng ord cur_price high low =
     (let order_value = o_quantity ord * cur_price;
          slippage = calculate_slippage order_value cur_price;
          execution_price = (if o_side ord = BUY then cur_price + slippage
                             else cur_price - slippage);
          (success, bm', ord') =
             execute_order (balance_manager eng) ord execution_price (o_quantity ord)
      in if success
         then (True, eng\<lparr>balance_manager := bm',
                         order_history := order_history eng @ [ord'],
                         orders := dict_del (order_id ord) (orders eng)\<rparr>)
         else (False, eng\<lparr>balance_manager := bm'\<rparr>))"

datatype trigger = TP | SL

text \<open>
  \<open>_check_tp_sl_improved\<close>. The take-profit test and the stop-loss test are two
  separate \<open>if\<close> statements, each of which may append an entry for the same position.
\<close>

definition tp_entries :: "nat \<Rightarrow> Position \<Rightarrow> real \<Rightarrow> real \<Rightarrow> (nat \<times> trigger \<times> real) list" where
  "tp_entries a p high low =
     (if truthy (take_profit_price p)
      then (if PositionSide_value (side p) = ''LONG'' \<and> high \<ge> the (take_profit_price p)
            then [(a, TP, the (take_profit_price p))]
            else if PositionSide_value (side p) = ''SHORT'' \<and> low \<le> the (take_profit_price p)
            then [(a, TP, the (take_profit_price p))]
            else [])
      else [])"

definition sl_entries :: "nat \<Rightarrow> Position \<Rightarrow> real \<Rightarrow> real \<Rightarrow> (nat \<times> trigger \<times> real) list" where
  "sl_entries a p high low =
     (if truthy (stop_loss_price p)
      then (if PositionSide_value (side p) = ''LONG'' \<and> low \<le> the (stop_loss_price p)
            then [(a, SL, the (stop_loss_price p))]
            else if PositionSide_value (side p) = ''SHORT'' \<and> high \<ge> the (stop_loss_price p)
            then [(a, SL, the (stop_loss_price p))]
            else [])
      else [])"

definition check_tp_sl_improved ::
  "OrderEngine \<Rightarrow> string \<Rightarrow> real \<Rightarrow> real \<Rightarrow> real \<Rightarrow> real \<Rightarrow> (nat \<times> trigger \<times> real) list" where
  "check_tp_sl_improved eng smb open_price high low close =
     concat (map (\<lambda>(k, a).
                    (let p = heap (balance_manager eng) ! a
                     in if symbol p \<noteq> smb then []
                        else tp_entries a p high low @ sl_entries a p high low))
                 (positions (balance_manager eng)))"

text \<open>
  The body of the first loop of \<open>process_candle\<close>: the closing order is created from
  the position object as it is now, with the defaults of \<open>create_order\<close> for price,
  take profit, stop loss and leverage, and executed at the trigger price.
\<close>

definition close_triggered ::
  "string \<Rightarrow> real \<Rightarrow> real \<Rightarrow> (nat \<times> trigger \<times> real) \<Rightarrow> OrderEngine \<Rightarrow> OrderEngine" where
  "close_triggered smb high low entry eng =
     (case entry of (a, trigger_type, trigger_price) \<Rightarrow>
        (let position = heap (balance_manager eng) ! a;
             closing_side = (if PositionSide_value (side position) = ''LONG''
                             then ''SELL'' else ''BUY'');
             ((success, msg, ordo), eng1) =
                create_order eng smb closing_side (quantity position) ''MARKET'' 0 None None None
         in case ordo of
              Some ord \<Rightarrow>
                (if success then snd (execute_market_order eng1 ord trigger_price high low)
                 else eng1)
            | None \<Rightarrow> eng1))"

definition pending_market_orders :: "OrderEngine \<Rightarrow> string \<Rightarrow> Order list" where
  "pending_market_orders eng smb =
     filter (\<lambda>ord. o_symbol ord = smb \<and> order_type ord = MARKET) (map snd (orders eng))"

definition process_candle ::
  "OrderEngine \<Rightarrow> string \<Rightarrow> real \<Rightarrow> real \<Rightarrow> real \<Rightarrow> real \<Rightarrow> real \<Rightarrow> OrderEngine" where
  "process_candle eng smb open_price high low close volume =
     (let eng1 = eng\<lparr>balance_manager :=
                      update_position_prices (balance_manager eng) smb close\<rparr>;
          positions_to_close = check_tp_sl_improved eng1 smb open_price high low close;
          eng2 = fold (close_triggered smb high low) positions_to_close eng1;
          pending_orders = pending_market_orders eng2 smb
      in fold (\<lambda>ord e. snd (execute_market_order e ord close high low)) pending_orders eng2)"

definition cancel_order :: "OrderEngine \<Rightarrow> nat \<Rightarrow> (bool \<times> message) \<times> OrderEngine" where
  "cancel_order eng oid =
     (case map_of (orders eng) oid of
        None \<Rightarrow> ((False, OrderNotFound), eng)
      | Some ord \<Rightarrow>
          ((True, OrderCancelledSuccessfully),
           eng\<lparr>order_history := order_history eng @ [ord\<lparr>status := CANCELLED\<rparr>],
               orders := dict_del oid (orders eng)\<rparr>))"

section \<open>The pricing policy as the specification words it\<close>

text \<open>
  The slippage percentage in the specification's words: the percentage of the highest
  configured threshold that is at most the order value, and the lowest threshold's
  percentage when the order value is below all of them.
\<close>

definition spec_slippage_pct :: "real \<Rightarrow> real" where
  "spec_slippage_pct order_value =
     (let thresholds = map fst SLIPPAGE_CONFIG;
          below = filter (\<lambda>t. t \<le> order_value) thresholds;
          chosen = (if below = [] then Min (set thresholds) else Max (set below))
      in the (map_of SLIPPAGE_CONFIG chosen))"

section \<open>The order endpoint and example inputs\<close>

text \<open>
  The order that \<open>create_order\<close> builds for a BUY market request on \<open>ADA-USDT\<close>
  with leverage 10.
\<close>

definition example_buy :: "nat \<Rightarrow> real \<Rightarrow> real option \<Rightarrow> real option \<Rightarrow> Order" where
  "example_buy oid qty tp sl =
     \<lparr> order_id = oid, o_symbol = ''ADA-USDT'', o_side = BUY, position_side = LONG,
       order_type = MARKET, o_quantity = qty, price = 0, executed_price = 0,
       executed_quantity = 0, status = PENDING, o_take_profit_price = tp,
       o_stop_loss_price = sl, commission = 0, o_leverage = Some 10 \<rparr>"

text \<open>
  Scenario 1 and 2 of the specification on the balance manager: from the default balance
  of 1000, a fill of 100 units at 1.00 opens the LONG position, and a fill of 100 units at
  1.05 on the same slot brings its quantity to zero.
\<close>

definition bm_after_open :: BalanceManager where
  "bm_after_open =
     fst (snd (execute_order (BalanceManager_init None) (example_buy 0 100 None None) 1 100))"

definition bm_after_close :: BalanceManager where
  "bm_after_close =
     fst (snd (execute_order bm_after_open (example_buy 1 100 None None) (105 / 100) 100))"

text \<open>
  The order that \<open>create_order\<close> builds for a SELL market request on \<open>ADA-USDT\<close>
  with leverage 10, and a fill that is larger than the position it meets: a fill of 100
  units at 2.00 opens the SHORT position, and a fill of 150 units at 1.50 on the same
  slot brings its quantity to -50.
\<close>

definition example_sell :: "nat \<Rightarrow> real \<Rightarrow> Order" where
  "example_sell oid qty =
     \<lparr> order_id = oid, o_symbol = ''ADA-USDT'', o_side = SELL, position_side = SHORT,
       order_type = MARKET, o_quantity = qty, price = 0, executed_price = 0,
       executed_quantity = 0, status = PENDING, o_take_profit_price = None,
       o_stop_loss_price = None, commission = 0, o_leverage = Some 10 \<rparr>"

definition bm_short_open :: BalanceManager where
  "bm_short_open =
     fst (snd (execute_order (BalanceManager_init None) (example_sell 0 100) 2 100))"

definition bm_short_overclosed :: BalanceManager where
  "bm_short_overclosed =
     fst (snd (execute_order bm_short_open (example_sell 1 150) (15 / 10) 150))"

text \<open>
  The order endpoint of \<open>api/server.py\<close> for a MARKET request when market data is
  available: \<open>create_order\<close> with the request's symbol, side, quantity, take profit and
  stop loss, then \<open>execute_market_order\<close> on the returned order at the current price.
\<close>

definition place_market_order ::
  "OrderEngine \<Rightarrow> string \<Rightarrow> string \<Rightarrow> real \<Rightarrow> real option \<Rightarrow> real option
     \<Rightarrow> real \<Rightarrow> real \<Rightarrow> real \<Rightarrow> OrderEngine" where
  "place_market_order eng smb sd qty take_profit stop_loss cur_price high low =
     (case create_order eng smb sd qty ''MARKET'' 0 take_profit stop_loss None of
        ((success, msg, Some ord), eng1) \<Rightarrow>
          (if success then snd (execute_market_order eng1 ord cur_price high low) else eng1)
      | ((success, msg, None), eng1) \<Rightarrow> eng1)"

definition engine0 :: OrderEngine where
  "engine0 = OrderEngine_init (BalanceManager_init None)"

text \<open>Two BUY market orders on the same symbol: 2 units at 100, then 1 unit at 110.\<close>

definition engine_two_buys :: OrderEngine where
  "engine_two_buys =
     place_market_order
       (place_market_order engine0 ''ADA-USDT'' ''BUY'' 2 None None 100 100 100)
       ''ADA-USDT'' ''BUY'' 1 None None 110 110 110"

text \<open>
  A BUY market order of 100 units at a market price of 1.00, followed either by a second
  BUY market order or by a SELL market order of the same size on the same symbol.
\<close>

definition engine_long_100 :: OrderEngine where
  "engine_long_100 = place_market_order engine0 ''ADA-USDT'' ''BUY'' 100 None None 1 1 1"

definition engine_buy_buy :: OrderEngine where
  "engine_buy_buy = place_market_order engine_long_100 ''ADA-USDT'' ''BUY'' 100 None None 1 1 1"

definition engine_buy_sell :: OrderEngine where
  "engine_buy_sell = place_market_order engine_long_100 ''ADA-USDT'' ''SELL'' 100 None None 1 1 1"

text \<open>
  A LONG position of 100 units opened at a market price of 1.00 with take profit 1.05
  and stop loss 0.95, and then a candle with high 1.10 and low 0.90.
\<close>

definition engine_long_tp_sl :: OrderEngine where
  "engine_long_tp_sl =
     place_market_order engine0 ''ADA-USDT'' ''BUY'' 100 (Some (105 / 100)) (Some (95 / 100)) 1 1 1"

definition engine_after_candle :: OrderEngine where
  "engine_after_candle =
     process_candle engine_long_tp_sl ''ADA-USDT'' 1 (110 / 100) (90 / 100) 1 1000"

text \<open>
  A LONG position of 100 units with take profit 1.05 only, and a candle with high 1.10,
  low 0.99 and close 1.08.
\<close>

definition engine_long_tp :: OrderEngine where
  "engine_long_tp =
     place_market_order engine0 ''ADA-USDT'' ''BUY'' 100 (Some (105 / 100)) None 1 1 1"

definition engine_tp_candle :: OrderEngine where
  "engine_tp_candle =
     process_candle engine_long_tp ''ADA-USDT'' 1 (110 / 100) (99 / 100) (108 / 100) 1000"

text \<open>
  The execution price of a market order of side \<open>sd\<close> and quantity \<open>qty\<close> at a market
  price, as \<open>execute_market_order\<close> computes it: the market price plus the slippage for
  a BUY, minus the slippage for a SELL.
\<close>

definition fill_price :: "OrderSide \<Rightarrow> real \<Rightarrow> real \<Rightarrow> real" where
  "fill_price sd qty market_price =
     (if sd = BUY then market_price + calculate_slippage (qty * market_price) market_price
      else market_price - calculate_slippage (qty * market_price) market_price)"

text \<open>
  The orders that the closing loop of \<open>process_candle\<close> adds to the history, in closed
  form. For one entry \<open>(position, kind, trigger price)\<close> of the scan the loop calls
  \<open>create_order\<close> for a MARKET order of the opposite side and of the position's
  quantity, and on success \<open>execute_market_order\<close> at the trigger price.
  \<open>create_order\<close> accepts the request when the quantity is positive and the free USDT
  balance covers the commission at price 0; the order is then built with the next order
  id and the default leverage, and is filled at \<open>fill_price\<close> of the trigger price.
  \<open>closing_fill\<close> is that filled order, or nothing when the request is refused;
  \<open>closing_fills\<close> collects them along the loop, each entry seeing the engine that the
  entries before it have left. The agreement with \<open>close_triggered\<close> is proved in
  \<open>close_triggered_exact\<close> below.
\<close>

definition closing_fill :: "string \<Rightarrow> (nat \<times> trigger \<times> real) \<Rightarrow> OrderEngine \<Rightarrow> Order list" where
  "closing_fill smb entry eng =
     (case entry of (a, kind, trig) \<Rightarrow>
        (let pos = heap (balance_manager eng) ! a;
             sd = (if side pos = LONG then SELL else BUY);
             qty = quantity pos
         in if 0 < qty
               \<and> (case balances (balance_manager eng) ''USDT'' of
                     None \<Rightarrow> False | Some b \<Rightarrow> MIN_COMMISSION \<le> free b)
            then [\<lparr> order_id = uuid_next eng, o_symbol = smb, o_side = sd,
                     position_side = (if sd = BUY then LONG else SHORT),
                     order_type = MARKET, o_quantity = qty, price = 0,
                     executed_price = fill_price sd qty trig,
                     executed_quantity = qty, status = FILLED,
                     o_take_profit_price = None, o_stop_loss_price = None,
                     commission = calculate_commission (qty * fill_price sd qty trig),
                     o_leverage = Some DEFAULT_LEVERAGE \<rparr>]
            else []))"

fun closing_fills ::
  "string \<Rightarrow> real \<Rightarrow> real \<Rightarrow> (nat \<times> trigger \<times> real) list \<Rightarrow> OrderEngine \<Rightarrow> Order list" where
  "closing_fills smb high low [] eng = []"
| "closing_fills smb high low (entry # rest) eng =
     closing_fill smb entry eng
     @ closing_fills smb high low rest (close_triggered smb high low entry eng)"

section \<open>Sequences of operations\<close>

text \<open>
  The operations of the engine that the API layer calls: \<open>create_order\<close>,
  \<open>execute_market_order\<close> on an order of the open-orders map (the order endpoint
  executes the order it has just created), \<open>process_candle\<close> and \<open>cancel_order\<close>.
\<close>

datatype request =
    CreateOrder string string real string real "real option" "real option" "int option"
  | ExecuteMarket nat real real real
  | ProcessCandle string real real real real real
  | CancelOrder nat

fun apply_request :: "OrderEngine \<Rightarrow> request \<Rightarrow> OrderEngine" where
  "apply_request eng (CreateOrder smb sd qty otype prc tp sl lev) =
     snd (create_order eng smb sd qty otype prc tp sl lev)"
| "apply_request eng (ExecuteMarket oid cur_price high low) =
     (case map_of (orders eng) oid of
        None \<Rightarrow> eng
      | Some ord \<Rightarrow> snd (execute_market_order eng ord cur_price high low))"
| "apply_request eng (ProcessCandle smb open_price high low close volume) =
     process_candle eng smb open_price high low close volume"
| "apply_request eng (CancelOrder oid) = snd (cancel_order eng oid)"

definition run_requests :: "OrderEngine \<Rightarrow> request list \<Rightarrow> OrderEngine" where
  "run_requests eng rs = fold (\<lambda>r e. apply_request e r) rs eng"

text \<open>
  The invariant of the book: every entry refers to an object of the store, that object
  has a positive quantity, and the entry's key is the object's symbol and direction.
  The invariant of the engine adds that every open order has a positive quantity.
\<close>

definition book_ok :: "BalanceManager \<Rightarrow> bool" where
  "book_ok bm =
     (\<forall>(k, a) \<in> set (positions bm).
        a < length (heap bm) \<and> 0 < quantity (heap bm ! a)
        \<and> k = symbol (heap bm ! a) @ ''_'' @ PositionSide_value (side (heap bm ! a)))"

definition engine_ok :: "OrderEngine \<Rightarrow> bool" where
  "engine_ok eng =
     (book_ok (balance_manager eng) \<and> (\<forall>(i, ord) \<in> set (orders eng). 0 < o_quantity ord))"

text \<open>The requests that open the LONG position of \<open>engine_long_tp\<close>.\<close>

definition open_long_requests :: "request list" where
  "open_long_requests =
     [CreateOrder ''ADA-USDT'' ''BUY'' 100 ''MARKET'' 0 (Some (105 / 100)) None None,
      ExecuteMarket 0 1 1 1]"

text \<open>A BUY market order on the symbol \<open>A\<close>, then one on the symbol \<open>A_LONG\<close>.\<close>

definition engine_two_symbols :: OrderEngine where
  "engine_two_symbols =
     place_market_order (place_market_order engine0 ''A'' ''BUY'' 1 None None 1 1 1)
       ''A_LONG'' ''BUY'' 1 None None 1 1 1"

section \<open>Pricing policy\<close>

lemma sorted_reverse_config:
  "sorted_reverse SLIPPAGE_CONFIG =
     [(10000, 2 / 1000), (1000, 1 / 1000), (100, 5 / 10000), (0, 1 / 10000)]"
  by (simp add: sorted_reverse_def SLIPPAGE_CONFIG_def)

lemma get_slippage_steps:
  "get_slippage v =
     (if v \<ge> 10000 then 2 / 1000 else if v \<ge> 1000 then 1 / 1000
      else if v \<ge> 100 then 5 / 10000 else 1 / 10000)"
  by (simp add: get_slippage_def sorted_reverse_config) (simp add: SLIPPAGE_CONFIG_def)

lemma spec_slippage_pct_steps:
  "spec_slippage_pct v =
     (if v \<ge> 10000 then 2 / 1000 else if v \<ge> 1000 then 1 / 1000
      else if v \<ge> 100 then 5 / 10000 else 1 / 10000)"
  by (simp add: spec_slippage_pct_def SLIPPAGE_CONFIG_def)

lemma calculate_commission_zero: "calculate_commission 0 = MIN_COMMISSION"
  by (simp add: calculate_commission_def MIN_COMMISSION_def)

text \<open>
  C8. For every order value and market price, \<open>calculate_slippage\<close> is the market price
  times the percentage of the highest configured threshold not above the order value
  (the lowest threshold's percentage below all thresholds); an order value of 5000
  takes the tier of threshold 1000, 0.1 percent.
\<close>

theorem slippage_tier:
  "calculate_slippage order_value market_price = market_price * spec_slippage_pct order_value
   \<and> calculate_slippage 5000 market_price = market_price * (1 / 1000)"
  by (simp add: calculate_slippage_def get_slippage_steps spec_slippage_pct_steps)

section \<open>Balance ledger\<close>

text \<open>
  C5. The balance written by \<open>__init__\<close> satisfies \<open>total = free + locked\<close>. A call of
  \<open>execute_order\<close> touches no balance other than USDT, and either leaves the USDT
  balance as it was or leaves it with \<open>total = free + locked\<close>, whether the fill opens
  a position, reduces one or closes it.
\<close>

theorem balance_total_invariant:
  "(\<exists>b. balances (BalanceManager_init ib) ''USDT'' = Some b
        \<and> total_balance b = free b + locked b) \<and>
   (let bm' = fst (snd (execute_order bm ord p q)) in
      balances bm' = (balances bm)(''USDT'' := balances bm' ''USDT'') \<and>
      (balances bm' ''USDT'' = balances bm ''USDT'' \<or>
       (\<exists>b. balances bm' ''USDT'' = Some b \<and> total_balance b = free b + locked b)))"
  by (auto simp: BalanceManager_init_def execute_order_def Let_def split: option.splits)

section \<open>Order creation\<close>

lemma leverage_or_default_idem:
  "leverage_or_default (Some (leverage_or_default lev)) = leverage_or_default lev"
  by (simp add: leverage_or_default_def DEFAULT_LEVERAGE_def split: option.splits)

lemma can_place_order_usdt:
  "balances bm ''USDT'' = Some b \<Longrightarrow>
   can_place_order bm smb sd qty prc (Some (leverage_or_default lev)) =
     (let total_required = qty * prc / of_int (leverage_or_default lev)
                           + calculate_commission (qty * prc)
      in if free b < total_required
         then (False, InsufficientBalance total_required (free b)) else (True, NoMessage))"
  by (simp add: can_place_order_def Let_def leverage_or_default_idem)

lemma create_order_invalid:
  assumes "sd \<notin> {''BUY'', ''SELL''} \<or> otype \<notin> {''MARKET'', ''LIMIT''} \<or> qty \<le> 0"
  shows "create_order eng smb sd qty otype prc tp sl lev =
           ((False,
             (if sd \<notin> {''BUY'', ''SELL''} then InvalidSide
              else if otype \<notin> {''MARKET'', ''LIMIT''} then InvalidOrderType
              else InvalidQuantity), None), eng)"
proof (cases "sd \<notin> {''BUY'', ''SELL''}")
  case True
  then show ?thesis by (simp add: create_order_def)
next
  case s: False
  show ?thesis
  proof (cases "otype \<notin> {''MARKET'', ''LIMIT''}")
    case True
    with s show ?thesis by (simp add: create_order_def)
  next
    case False
    with s assms have "qty \<le> 0" by blast
    with s False show ?thesis by (simp add: create_order_def)
  qed
qed

lemma create_order_checked:
  assumes "sd \<in> {''BUY'', ''SELL''}" and "otype \<in> {''MARKET'', ''LIMIT''}" and "0 < qty"
  shows "create_order eng smb sd qty otype prc tp sl lev =
     (let ord = \<lparr> order_id = uuid_next eng, o_symbol = smb,
                  o_side = (if sd = ''BUY'' then BUY else SELL),
                  position_side = (if sd = ''BUY'' then LONG else SHORT),
                  order_type = (if otype = ''MARKET'' then MARKET else LIMIT),
                  o_quantity = qty, price = prc, executed_price = 0, executed_quantity = 0,
                  status = PENDING, o_take_profit_price = tp, o_stop_loss_price = sl,
                  commission = 0, o_leverage = Some (leverage_or_default lev) \<rparr>;
          chk = can_place_order (balance_manager eng) smb sd qty
                  (if otype = ''MARKET'' then 0 else prc) (Some (leverage_or_default lev))
      in if fst chk
         then ((True, OrderCreatedSuccessfully, Some ord),
               eng\<lparr>uuid_next := Suc (uuid_next eng),
                    orders := dict_set (uuid_next eng) ord (orders eng)\<rparr>)
         else ((False, snd chk, None), eng\<lparr>uuid_next := Suc (uuid_next eng)\<rparr>))"
proof -
  have s: "OrderSide_of sd = Some (if sd = ''BUY'' then BUY else SELL)"
    using assms(1) by (auto simp: OrderSide_of_def)
  have t: "OrderType_of otype = Some (if otype = ''MARKET'' then MARKET else LIMIT)"
    using assms(2) by (auto simp: OrderType_of_def)
  have g: "\<not> sd \<notin> set [''BUY'', ''SELL'']" "\<not> otype \<notin> set [''MARKET'', ''LIMIT'']" "\<not> qty \<le> 0"
    using assms by auto
  show ?thesis
    unfolding create_order_def Let_def if_not_P [OF g(1)] if_not_P [OF g(2)] if_not_P [OF g(3)] s t
    by (simp add: case_prod_beta)
qed

lemma can_place_order_reason:
  "can_place_order bm smb sd qty prc lev = (False, r) \<Longrightarrow>
     r = NoUSDTBalance \<or> (\<exists>x y. r = InsufficientBalance x y)"
  by (auto simp: can_place_order_def Let_def split: option.splits if_splits)

lemma create_order_not_success:
  assumes "\<not> fst (fst (create_order eng smb sd qty otype prc tp sl lev))"
  shows "orders (snd (create_order eng smb sd qty otype prc tp sl lev)) = orders eng
       \<and> balance_manager (snd (create_order eng smb sd qty otype prc tp sl lev)) = balance_manager eng
       \<and> order_history (snd (create_order eng smb sd qty otype prc tp sl lev)) = order_history eng"
proof (cases "sd \<in> {''BUY'', ''SELL''} \<and> otype \<in> {''MARKET'', ''LIMIT''} \<and> 0 < qty")
  case True
  then show ?thesis
    using assms by (auto simp: create_order_checked Let_def split: if_splits)
next
  case False
  then have "sd \<notin> {''BUY'', ''SELL''} \<or> otype \<notin> {''MARKET'', ''LIMIT''} \<or> qty \<le> 0"
    by auto
  from create_order_invalid [OF this] show ?thesis by simp
qed

text \<open>
  C9. A create request with a side other than BUY and SELL, or a type other than MARKET
  and LIMIT, or a quantity that is not positive, or one that fails the balance check,
  returns \<open>False\<close> with the reason of the first failing test and no order, and
  leaves the open orders, the balance manager (balances, positions and their objects,
  total PnL) and the history as they were.
\<close>

theorem create_order_failure_no_mutation:
  assumes "sd \<notin> {''BUY'', ''SELL''} \<or> otype \<notin> {''MARKET'', ''LIMIT''} \<or> qty \<le> 0 \<or>
           \<not> fst (can_place_order (balance_manager eng) smb sd qty
                    (if otype = ''MARKET'' then 0 else prc) (Some (leverage_or_default lev)))"
  shows "fst (create_order eng smb sd qty otype prc tp sl lev) =
           (False,
            (if sd \<notin> {''BUY'', ''SELL''} then InvalidSide
             else if otype \<notin> {''MARKET'', ''LIMIT''} then InvalidOrderType
             else if qty \<le> 0 then InvalidQuantity
             else snd (can_place_order (balance_manager eng) smb sd qty
                    (if otype = ''MARKET'' then 0 else prc) (Some (leverage_or_default lev)))),
            None)
         \<and> orders (snd (create_order eng smb sd qty otype prc tp sl lev)) = orders eng
         \<and> balance_manager (snd (create_order eng smb sd qty otype prc tp sl lev)) = balance_manager eng
         \<and> order_history (snd (create_order eng smb sd qty otype prc tp sl lev)) = order_history eng"
proof (cases "sd \<in> {''BUY'', ''SELL''} \<and> otype \<in> {''MARKET'', ''LIMIT''} \<and> 0 < qty")
  case True
  with assms show ?thesis
    by (auto simp: create_order_checked Let_def)
next
  case False
  then have "sd \<notin> {''BUY'', ''SELL''} \<or> otype \<notin> {''MARKET'', ''LIMIT''} \<or> qty \<le> 0"
    by auto
  from create_order_invalid [OF this] False show ?thesis
    by auto
qed

theorem create_order_failure_no_mutation_witness:
  "\<not> fst (can_place_order (balance_manager (OrderEngine_init (BalanceManager_init (Some (1 / 100)))))
            ''BTCUSDT'' ''BUY'' 1 0 (Some (leverage_or_default None)))
   \<and> fst (create_order (OrderEngine_init (BalanceManager_init (Some (1 / 100))))
            ''BTCUSDT'' ''BUY'' 1 ''MARKET'' 0 None None None)
       = (False, InsufficientBalance (4 / 100) (1 / 100), None)
   \<and> orders (snd (create_order (OrderEngine_init (BalanceManager_init (Some (1 / 100))))
            ''BTCUSDT'' ''BUY'' 1 ''MARKET'' 0 None None None)) = []"
  using create_order_failure_no_mutation
          [where sd = "''BUY''" and otype = "''MARKET''" and qty = 1
             and eng = "OrderEngine_init (BalanceManager_init (Some (1 / 100)))"
             and smb = "''BTCUSDT''" and prc = 0 and tp = None and sl = None and lev = None]
  by (simp add: can_place_order_def Let_def leverage_or_default_def DEFAULT_LEVERAGE_def
        BalanceManager_init_def OrderEngine_init_def calculate_commission_def
        COMMISSION_RATE_def MIN_COMMISSION_def)

text \<open>
  C1, as the code has it. \<open>create_order\<close> hands \<open>can_place_order\<close> the price 0 for a
  MARKET order, so the required total is the commission of an order value of zero, the
  minimum commission: a MARKET request with a valid side and a positive quantity is
  refused for insufficient balance exactly when the free USDT balance is below
  \<open>MIN_COMMISSION\<close>, whatever its quantity and leverage, and a refused request records no
  order. Only a LIMIT request is checked against its notional value, at its limit price.
\<close>

theorem create_order_balance_check:
  assumes "sd \<in> {''BUY'', ''SELL''}" and "0 < qty"
    and "balances (balance_manager eng) ''USDT'' = Some b"
  shows "((\<exists>r a. fst (create_order eng smb sd qty ''MARKET'' prc tp sl lev)
                  = (False, InsufficientBalance r a, None))
           \<longleftrightarrow> free b < MIN_COMMISSION)
       \<and> ((\<exists>r a. fst (create_order eng smb sd qty ''LIMIT'' prc tp sl lev)
                  = (False, InsufficientBalance r a, None))
           \<longleftrightarrow> free b < qty * prc / of_int (leverage_or_default lev)
                          + calculate_commission (qty * prc))
       \<and> (fst (fst (create_order eng smb sd qty ''MARKET'' prc tp sl lev))
           \<or> orders (snd (create_order eng smb sd qty ''MARKET'' prc tp sl lev)) = orders eng)"
  using assms
  by (auto simp: create_order_checked can_place_order_usdt calculate_commission_zero Let_def)


theorem create_order_balance_check_witness:
  "\<not> (\<exists>r a. fst (create_order (OrderEngine_init (BalanceManager_init None))
                 ''BTCUSDT'' ''BUY'' 100000 ''MARKET'' 1 None None None)
            = (False, InsufficientBalance r a, None))
   \<and> (\<exists>r a. fst (create_order (OrderEngine_init (BalanceManager_init None))
                 ''BTCUSDT'' ''BUY'' 100000 ''LIMIT'' 1 None None None)
            = (False, InsufficientBalance r a, None))"
  using create_order_balance_check
          [where sd = "''BUY''" and qty = 100000
             and eng = "OrderEngine_init (BalanceManager_init None)"
             and b = "\<lparr>asset = ''USDT'', free = 1000, locked = 0, total_balance = 1000\<rparr>"
             and smb = "''BTCUSDT''" and prc = 1 and tp = None and sl = None and lev = None]
  by (simp add: Let_def BalanceManager_init_def OrderEngine_init_def MIN_COMMISSION_def
        DEFAULT_BALANCE_def calculate_commission_def COMMISSION_RATE_def
        leverage_or_default_def DEFAULT_LEVERAGE_def)

text \<open>
  C1 as stated fails: with the default balance of 1000 USDT, a MARKET request for 100000
  units at a market price of 1 and leverage 10 needs 10000 of margin and 70 of
  commission, and \<open>create_order\<close> accepts and records it.
\<close>

theorem market_order_balance_check_counterexample:
  "balances (balance_manager (OrderEngine_init (BalanceManager_init None))) ''USDT''
     = Some \<lparr>asset = ''USDT'', free = 1000, locked = 0, total_balance = 1000\<rparr>
   \<and> (1000 :: real) < 100000 * 1 / 10 + calculate_commission (100000 * 1)
   \<and> fst (fst (create_order (OrderEngine_init (BalanceManager_init None))
                 ''BTCUSDT'' ''BUY'' 100000 ''MARKET'' 0 None None (Some 10)))
   \<and> map fst (orders (snd (create_order (OrderEngine_init (BalanceManager_init None))
                 ''BTCUSDT'' ''BUY'' 100000 ''MARKET'' 0 None None (Some 10)))) = [0]"
  by (simp add: create_order_def Let_def OrderSide_of_def OrderType_of_def can_place_order_def
        leverage_or_default_def DEFAULT_LEVERAGE_def BalanceManager_init_def OrderEngine_init_def
        calculate_commission_def COMMISSION_RATE_def MIN_COMMISSION_def DEFAULT_BALANCE_def
        dict_set_def)

section \<open>Executions\<close>

lemma side_values_differ: "OrderSide_value s \<noteq> PositionSide_value d"
  by (cases s; cases d) simp_all

lemma order_side_value_not_position:
  "OrderSide_value s \<noteq> ''LONG''" "OrderSide_value s \<noteq> ''SHORT''"
  by (cases s; simp)+

lemma map_of_dict_del: "map_of (dict_del k d) k = None"
  by (induction d) (auto simp: dict_del_def)

lemmas eval_defs = execute_order_def Let_def BalanceManager_init_def example_buy_def
  position_key_def calculate_commission_def COMMISSION_RATE_def MIN_COMMISSION_def
  DEFAULT_BALANCE_def DEFAULT_LEVERAGE_def dict_del_def

lemma bm_after_open_eq:
  "bm_after_open =
     \<lparr> initial_balance = 1000,
       balances = [''USDT'' \<mapsto> \<lparr>asset = ''USDT'', free = 98993 / 100, locked = 0,
                                 total_balance = 98993 / 100\<rparr>],
       positions = [(''ADA-USDT_LONG'', 0)],
       heap = [\<lparr> symbol = ''ADA-USDT'', side = LONG, quantity = 100, entry_price = 1,
                 current_price = 1, unrealized_pnl = 0, realized_pnl = 0, leverage = 10,
                 margin = 10, take_profit_price = None, stop_loss_price = None \<rparr>],
       total_pnl = 0 \<rparr>"
  by (simp add: bm_after_open_def eval_defs)

lemma bm_short_open_eq:
  "bm_short_open =
     \<lparr> initial_balance = 1000,
       balances = [''USDT'' \<mapsto> \<lparr>asset = ''USDT'', free = 97986 / 100, locked = 0,
                                 total_balance = 97986 / 100\<rparr>],
       positions = [(''ADA-USDT_SHORT'', 0)],
       heap = [\<lparr> symbol = ''ADA-USDT'', side = SHORT, quantity = 100, entry_price = 2,
                 current_price = 2, unrealized_pnl = 0, realized_pnl = 0, leverage = 10,
                 margin = 20, take_profit_price = None, stop_loss_price = None \<rparr>],
       total_pnl = 0 \<rparr>"
  by (simp add: bm_short_open_def example_sell_def eval_defs)

text \<open>
  C2, as the code has it. An execution that brings an existing position's quantity to
  zero or below is charged like every fill: the free USDT balance first loses the fill's
  own margin \<open>q * p / leverage\<close> and its commission, and then gains the margin stored
  in the position. The realized PnL is computed on the whole quantity \<open>q\<close> of the fill,
  \<open>(p - entry_price) * q\<close>, negated for a SHORT order, also when \<open>q\<close> is larger than
  the quantity the position held; it is added to \<open>total_pnl\<close> and to the
  \<open>realized_pnl\<close> of the position object, not to the free balance. The position
  object is left with the quantity \<open>quantity - q\<close> and leaves the book.
\<close>

theorem full_close_balance:
  assumes "map_of (positions bm) (position_key ord) = Some a"
      and "balances bm ''USDT'' = Some b"
      and "o_leverage ord \<noteq> Some 0"
      and "quantity (heap bm ! a) - q \<le> 0"
  shows "(let lv = (case o_leverage ord of Some l \<Rightarrow> l | None \<Rightarrow> DEFAULT_LEVERAGE);
              realized = (if position_side ord = SHORT
                          then - ((p - entry_price (heap bm ! a)) * q)
                          else (p - entry_price (heap bm ! a)) * q);
              bm' = fst (snd (execute_order bm ord p q))
          in fst (execute_order bm ord p q)
             \<and> (\<exists>b'. balances bm' ''USDT'' = Some b'
                   \<and> free b' = free b - (q * p / of_int lv + calculate_commission (q * p))
                               + margin (heap bm ! a))
             \<and> total_pnl bm' = total_pnl bm + realized
             \<and> map_of (positions bm') (position_key ord) = None
             \<and> (a < length (heap bm) \<longrightarrow>
                  realized_pnl (heap bm' ! a) = realized_pnl (heap bm ! a) + realized
                  \<and> quantity (heap bm' ! a) = quantity (heap bm ! a) - q))"
  using assms
  by (cases "position_side ord")
     (auto simp: execute_order_def Let_def order_side_value_not_position map_of_dict_del
           split: option.splits)

text \<open>
  The theorem on a fill that is larger than the position: the SHORT position of 100
  units at 2.00 meets a fill of 150 units at 1.50. The realized PnL is
  \<open>(2.00 - 1.50) * 150 = 75\<close>, on the 150 units of the fill.
\<close>

theorem full_close_balance_witness:
  "fst (execute_order bm_short_open (example_sell 1 150) (15 / 10) 150)
   \<and> map_option free (balances bm_short_overclosed ''USDT'')
       = Some (97986 / 100
               - (150 * (15 / 10) / 10 + calculate_commission (150 * (15 / 10))) + 20)
   \<and> total_pnl bm_short_overclosed = - ((15 / 10 - 2) * 150)
   \<and> total_pnl bm_short_overclosed = 75
   \<and> realized_pnl (heap bm_short_overclosed ! 0) = 75
   \<and> quantity (heap bm_short_overclosed ! 0) = - 50
   \<and> map_of (positions bm_short_overclosed) ''ADA-USDT_SHORT'' = None"
  using full_close_balance
          [where bm = bm_short_open and ord = "example_sell 1 150" and a = 0
             and b = "\<lparr>asset = ''USDT'', free = 97986 / 100, locked = 0,
                       total_balance = 97986 / 100\<rparr>"
             and q = 150 and p = "15 / 10"]
  by (simp add: bm_short_overclosed_def bm_short_open_eq example_sell_def)
     (simp add: eval_defs)

text \<open>
  C2 as stated fails on its own example: after the opening fill the free balance is
  989.93 and the position holds a margin of 10; the closing fill of 100 units at 1.05
  realizes a PnL of 5 and leaves the free balance at 989.3565, not at 1004.93 less the
  closing commission.
\<close>

theorem full_close_counterexample:
  "map_option free (balances bm_after_open ''USDT'') = Some (98993 / 100)
   \<and> map (\<lambda>(k, a). (k, quantity (heap bm_after_open ! a), entry_price (heap bm_after_open ! a),
                      margin (heap bm_after_open ! a))) (positions bm_after_open)
       = [(''ADA-USDT_LONG'', 100, 1, 10)]
   \<and> positions bm_after_close = []
   \<and> total_pnl bm_after_close = 5
   \<and> map_option free (balances bm_after_close ''USDT'') = Some (9893565 / 10000)
   \<and> (9893565 / 10000 :: real)
       \<noteq> 98993 / 100 + 10 + 5 - calculate_commission (100 * (105 / 100))"
  by (simp add: bm_after_close_def bm_after_open_eq) (simp add: eval_defs)

section \<open>The order endpoint and the candle scan on examples\<close>

lemmas engine_defs = place_market_order_def create_order_def execute_market_order_def
  execute_order_def can_place_order_def OrderSide_of_def OrderType_of_def
  leverage_or_default_def position_key_def dict_set_def dict_del_def Let_def
  calculate_commission_def calculate_slippage_def get_slippage_steps
  COMMISSION_RATE_def MIN_COMMISSION_def DEFAULT_LEVERAGE_def

lemma engine0_eq:
  "engine0 =
     \<lparr> balance_manager =
         \<lparr> initial_balance = 1000,
           balances = [''USDT'' \<mapsto> \<lparr>asset = ''USDT'', free = 1000, locked = 0,
                                     total_balance = 1000\<rparr>],
           positions = [], heap = [], total_pnl = 0 \<rparr>,
       orders = [], order_history = [], uuid_next = 0 \<rparr>"
  by (simp add: engine0_def OrderEngine_init_def BalanceManager_init_def DEFAULT_BALANCE_def)

lemma first_buy_eq:
  "place_market_order engine0 ''ADA-USDT'' ''BUY'' 2 None None 100 100 100 =
     \<lparr> balance_manager =
         \<lparr> initial_balance = 1000,
           balances = [''USDT'' \<mapsto> \<lparr>asset = ''USDT'', free = 1000 - (2001 / 100 + 14007 / 100000),
                                     locked = 0,
                                     total_balance = 1000 - (2001 / 100 + 14007 / 100000)\<rparr>],
           positions = [(''ADA-USDT_LONG'', 0)],
           heap = [\<lparr> symbol = ''ADA-USDT'', side = LONG, quantity = 2, entry_price = 2001 / 20,
                     current_price = 2001 / 20, unrealized_pnl = 0, realized_pnl = 0,
                     leverage = 10, margin = 2001 / 100,
                     take_profit_price = None, stop_loss_price = None \<rparr>],
           total_pnl = 0 \<rparr>,
       orders = [],
       order_history = [\<lparr> order_id = 0, o_symbol = ''ADA-USDT'', o_side = BUY,
                          position_side = LONG, order_type = MARKET, o_quantity = 2, price = 0,
                          executed_price = 2001 / 20, executed_quantity = 2, status = FILLED,
                          o_take_profit_price = None, o_stop_loss_price = None,
                          commission = 14007 / 100000, o_leverage = Some 10 \<rparr>],
       uuid_next = 1 \<rparr>"
  by (simp add: engine0_eq engine_defs)

text \<open>
  C7 on the code. Two BUY market orders on the same symbol are two fills on the slot
  \<open>ADA-USDT_LONG\<close>: 2 units filled at 100.05 and 1 unit filled at 110.055. The test
  \<open>order.side.value == order.position_side.value\<close> compares BUY or SELL with LONG or
  SHORT and is never true, so the second fill takes the reducing branch: the position is
  left with quantity 1 at the entry price of the first fill, not with quantity 3 at the
  weighted average.
\<close>

theorem same_direction_fills_reduce:
  "map (\<lambda>ord. (o_side ord, position_side ord, executed_quantity ord, executed_price ord))
       (order_history engine_two_buys)
     = [(BUY, LONG, 2, 2001 / 20), (BUY, LONG, 1, 22011 / 200)]
   \<and> map (\<lambda>(k, a). (k, quantity (heap (balance_manager engine_two_buys) ! a),
                       entry_price (heap (balance_manager engine_two_buys) ! a)))
          (positions (balance_manager engine_two_buys))
     = [(''ADA-USDT_LONG'', 1, 2001 / 20)]
   \<and> (1 :: real) \<noteq> 2 + 1
   \<and> (2001 / 20 :: real) \<noteq> (2001 / 20 * 2 + 22011 / 200 * 1) / (2 + 1)"
  by (simp add: engine_two_buys_def first_buy_eq) (simp add: engine_defs)

lemma engine_long_100_eq:
  "engine_long_100 =
     \<lparr> balance_manager =
         \<lparr> initial_balance = 1000,
           balances = [''USDT'' \<mapsto> \<lparr>asset = ''USDT'', free = 1000 - (2001 / 200 + 14007 / 200000),
                                     locked = 0,
                                     total_balance = 1000 - (2001 / 200 + 14007 / 200000)\<rparr>],
           positions = [(''ADA-USDT_LONG'', 0)],
           heap = [\<lparr> symbol = ''ADA-USDT'', side = LONG, quantity = 100,
                     entry_price = 2001 / 2000, current_price = 2001 / 2000,
                     unrealized_pnl = 0, realized_pnl = 0, leverage = 10, margin = 2001 / 200,
                     take_profit_price = None, stop_loss_price = None \<rparr>],
           total_pnl = 0 \<rparr>,
       orders = [],
       order_history = [\<lparr> order_id = 0, o_symbol = ''ADA-USDT'', o_side = BUY,
                          position_side = LONG, order_type = MARKET, o_quantity = 100, price = 0,
                          executed_price = 2001 / 2000, executed_quantity = 100, status = FILLED,
                          o_take_profit_price = None, o_stop_loss_price = None,
                          commission = 14007 / 200000, o_leverage = Some 10 \<rparr>],
       uuid_next = 1 \<rparr>"
  by (simp add: engine_long_100_def engine0_eq engine_defs)

text \<open>
  C6 on the code. The fill of a BUY order lands on the slot \<open>ADA-USDT_LONG\<close> and the
  fill of a SELL order on the slot \<open>ADA-USDT_SHORT\<close>, and every fill that meets an
  existing slot takes the reducing branch (the test
  \<open>order.side.value == order.position_side.value\<close> is never true). After a BUY of 100
  units has opened the LONG position, a second BUY of 100 units, an execution in the
  position's own direction, removes the position from the book; a SELL of 100 units, the
  reducing execution for a LONG position, leaves it in the book with its quantity of 100
  and opens a SHORT position beside it.
\<close>

theorem same_direction_fill_removes_position:
  "map (\<lambda>(k, a). (k, side (heap (balance_manager engine_long_100) ! a),
                     quantity (heap (balance_manager engine_long_100) ! a)))
       (positions (balance_manager engine_long_100))
     = [(''ADA-USDT_LONG'', LONG, 100)]
   \<and> map (\<lambda>ord. (o_side ord, executed_quantity ord, status ord)) (order_history engine_buy_buy)
     = [(BUY, 100, FILLED), (BUY, 100, FILLED)]
   \<and> positions (balance_manager engine_buy_buy) = []
   \<and> map (\<lambda>ord. (o_side ord, executed_quantity ord, status ord)) (order_history engine_buy_sell)
     = [(BUY, 100, FILLED), (SELL, 100, FILLED)]
   \<and> map (\<lambda>(k, a). (k, side (heap (balance_manager engine_buy_sell) ! a),
                       quantity (heap (balance_manager engine_buy_sell) ! a)))
          (positions (balance_manager engine_buy_sell))
     = [(''ADA-USDT_LONG'', LONG, 100), (''ADA-USDT_SHORT'', SHORT, 100)]"
  by (simp add: engine_buy_buy_def engine_buy_sell_def engine_long_100_eq) (simp add: engine_defs)

lemma engine_long_tp_sl_eq:
  "engine_long_tp_sl =
     \<lparr> balance_manager =
         \<lparr> initial_balance = 1000,
           balances = [''USDT'' \<mapsto> \<lparr>asset = ''USDT'', free = 1000 - (2001 / 200 + 14007 / 200000),
                                     locked = 0,
                                     total_balance = 1000 - (2001 / 200 + 14007 / 200000)\<rparr>],
           positions = [(''ADA-USDT_LONG'', 0)],
           heap = [\<lparr> symbol = ''ADA-USDT'', side = LONG, quantity = 100,
                     entry_price = 2001 / 2000, current_price = 2001 / 2000,
                     unrealized_pnl = 0, realized_pnl = 0, leverage = 10, margin = 2001 / 200,
                     take_profit_price = Some (105 / 100), stop_loss_price = Some (95 / 100) \<rparr>],
           total_pnl = 0 \<rparr>,
       orders = [],
       order_history = [\<lparr> order_id = 0, o_symbol = ''ADA-USDT'', o_side = BUY,
                          position_side = LONG, order_type = MARKET, o_quantity = 100, price = 0,
                          executed_price = 2001 / 2000, executed_quantity = 100, status = FILLED,
                          o_take_profit_price = Some (105 / 100),
                          o_stop_loss_price = Some (95 / 100),
                          commission = 14007 / 200000, o_leverage = Some 10 \<rparr>],
       uuid_next = 1 \<rparr>"
  by (simp add: engine_long_tp_sl_def engine0_eq engine_defs)

lemmas candle_defs = process_candle_def update_position_prices_def mark_position_def
  check_tp_sl_improved_def tp_entries_def sl_entries_def truthy_def close_triggered_def
  pending_market_orders_def

text \<open>
  C3 on the code. The candle breaches both thresholds of the LONG position. The scan
  lists the position twice (the sibling \<open>check_tp_sl\<close> lists it once), and the candle
  loop creates and executes a closing SELL order for each entry: the history gains two
  filled closing orders. \<open>create_order\<close> derives the position side SHORT from the side
  SELL, so the first opens a SHORT position and the second closes that one; the LONG
  position stays in the book with its quantity of 100.
\<close>

theorem both_thresholds_two_closing_orders:
  "check_tp_sl_improved engine_long_tp_sl ''ADA-USDT'' 1 (110 / 100) (90 / 100) 1
     = [(0, TP, 105 / 100), (0, SL, 95 / 100)]
   \<and> check_tp_sl (balance_manager engine_long_tp_sl) ''ADA-USDT'' 1 (110 / 100) (90 / 100) = [0]
   \<and> map (\<lambda>ord. (o_side ord, position_side ord, executed_quantity ord, executed_price ord,
                   status ord)) (order_history engine_after_candle)
     = [(BUY, LONG, 100, 2001 / 2000, FILLED),
        (SELL, SHORT, 100, 41979 / 40000, FILLED),
        (SELL, SHORT, 100, 189981 / 200000, FILLED)]
   \<and> map (\<lambda>(k, a). (k, quantity (heap (balance_manager engine_after_candle) ! a)))
          (positions (balance_manager engine_after_candle))
     = [(''ADA-USDT_LONG'', 100)]"
  by (simp add: engine_after_candle_def engine_long_tp_sl_eq candle_defs check_tp_sl_def)
     (simp add: engine_defs)

section \<open>Creation and execution of an order\<close>

lemma tp_entries_mem:
  "(a', kind, trig) \<in> set (tp_entries a p high low) \<Longrightarrow>
     a' = a \<and> kind = TP \<and> take_profit_price p = Some trig"
  by (cases "take_profit_price p") (auto simp: tp_entries_def truthy_def split: if_splits)

lemma sl_entries_mem:
  "(a', kind, trig) \<in> set (sl_entries a p high low) \<Longrightarrow>
     a' = a \<and> kind = SL \<and> stop_loss_price p = Some trig"
  by (cases "stop_loss_price p") (auto simp: sl_entries_def truthy_def split: if_splits)

lemma check_tp_sl_improved_entry:
  assumes "(a, kind, trig) \<in> set (check_tp_sl_improved eng smb open_price high low close)"
  shows "(kind = TP \<and> take_profit_price (heap (balance_manager eng) ! a) = Some trig)
       \<or> (kind = SL \<and> stop_loss_price (heap (balance_manager eng) ! a) = Some trig)"
proof -
  from assms obtain k a0 where
    m: "(a, kind, trig) \<in> set (let p = heap (balance_manager eng) ! a0
           in if symbol p \<noteq> smb then []
              else tp_entries a0 p high low @ sl_entries a0 p high low)"
    by (auto simp: check_tp_sl_improved_def)
  then have "(a, kind, trig) \<in> set (tp_entries a0 (heap (balance_manager eng) ! a0) high low)
           \<or> (a, kind, trig) \<in> set (sl_entries a0 (heap (balance_manager eng) ! a0) high low)"
    by (auto simp: Let_def split: if_splits)
  then show ?thesis
    using tp_entries_mem sl_entries_mem by blast
qed

lemma leverage_or_default_nonzero: "leverage_or_default lev \<noteq> 0"
  by (simp add: leverage_or_default_def DEFAULT_LEVERAGE_def split: option.splits)

lemma can_place_order_True:
  "fst (can_place_order bm smb sd qty prc lev) \<Longrightarrow> balances bm ''USDT'' \<noteq> None"
  by (auto simp: can_place_order_def Let_def split: option.splits)

lemma set_dict_set: "set (dict_set k v d) \<subseteq> insert (k, v) (set d)"
  by (auto simp: dict_set_def split: if_splits)

lemma set_dict_del: "set (dict_del k d) \<subseteq> set d"
  by (auto simp: dict_del_def)

lemma create_order_history:
  "order_history (snd (create_order eng smb sd qty otype prc tp sl lev)) = order_history eng"
proof (cases "sd \<in> {''BUY'', ''SELL''} \<and> otype \<in> {''MARKET'', ''LIMIT''} \<and> 0 < qty")
  case True
  then show ?thesis by (simp add: create_order_checked Let_def)
next
  case False
  then have "sd \<notin> {''BUY'', ''SELL''} \<or> otype \<notin> {''MARKET'', ''LIMIT''} \<or> qty \<le> 0"
    by auto
  from create_order_invalid [OF this] show ?thesis by simp
qed

lemma create_order_balance_manager:
  "balance_manager (snd (create_order eng smb sd qty otype prc tp sl lev)) = balance_manager eng"
proof (cases "sd \<in> {''BUY'', ''SELL''} \<and> otype \<in> {''MARKET'', ''LIMIT''} \<and> 0 < qty")
  case True
  then show ?thesis by (simp add: create_order_checked Let_def)
next
  case False
  then have "sd \<notin> {''BUY'', ''SELL''} \<or> otype \<notin> {''MARKET'', ''LIMIT''} \<or> qty \<le> 0"
    by auto
  from create_order_invalid [OF this] show ?thesis by simp
qed

lemma create_order_success:
  assumes "create_order eng smb sd qty otype prc tp sl lev = ((True, msg, Some ord), eng1)"
  shows "0 < o_quantity ord" and "o_quantity ord = qty" and "o_leverage ord \<noteq> Some 0"
    and "balances (balance_manager eng) ''USDT'' \<noteq> None"
    and "set (orders eng1) \<subseteq> insert (order_id ord, ord) (set (orders eng))"
proof -
  have v: "sd \<in> {''BUY'', ''SELL''} \<and> otype \<in> {''MARKET'', ''LIMIT''} \<and> 0 < qty"
  proof (rule ccontr)
    assume "\<not> ?thesis"
    then have "sd \<notin> {''BUY'', ''SELL''} \<or> otype \<notin> {''MARKET'', ''LIMIT''} \<or> qty \<le> 0"
      by auto
    from create_order_invalid [OF this] assms show False by simp
  qed
  then have c: "create_order eng smb sd qty otype prc tp sl lev = 
     (let ord = \<lparr> order_id = uuid_next eng, o_symbol = smb,
                  o_side = (if sd = ''BUY'' then BUY else SELL),
                  position_side = (if sd = ''BUY'' then LONG else SHORT),
                  order_type = (if otype = ''MARKET'' then MARKET else LIMIT),
                  o_quantity = qty, price = prc, executed_price = 0, executed_quantity = 0,
                  status = PENDING, o_take_profit_price = tp, o_stop_loss_price = sl,
                  commission = 0, o_leverage = Some (leverage_or_default lev) \<rparr>;
          chk = can_place_order (balance_manager eng) smb sd qty
                  (if otype = ''MARKET'' then 0 else prc) (Some (leverage_or_default lev))
      in if fst chk
         then ((True, OrderCreatedSuccessfully, Some ord),
               eng\<lparr>uuid_next := Suc (uuid_next eng),
                    orders := dict_set (uuid_next eng) ord (orders eng)\<rparr>)
         else ((False, snd chk, None), eng\<lparr>uuid_next := Suc (uuid_next eng)\<rparr>))"
    by (intro create_order_checked) simp_all
  let ?chk = "can_place_order (balance_manager eng) smb sd qty
                  (if otype = ''MARKET'' then 0 else prc) (Some (leverage_or_default lev))"
  have f: "fst ?chk"
  proof (rule ccontr)
    assume "\<not> fst ?chk"
    with c have "fst (fst (create_order eng smb sd qty otype prc tp sl lev)) = False"
      by (simp add: Let_def)
    with assms show False by simp
  qed
  let ?ord = "\<lparr> order_id = uuid_next eng, o_symbol = smb,
                  o_side = (if sd = ''BUY'' then BUY else SELL),
                  position_side = (if sd = ''BUY'' then LONG else SHORT),
                  order_type = (if otype = ''MARKET'' then MARKET else LIMIT),
                  o_quantity = qty, price = prc, executed_price = 0, executed_quantity = 0,
                  status = PENDING, o_take_profit_price = tp, o_stop_loss_price = sl,
                  commission = 0, o_leverage = Some (leverage_or_default lev) \<rparr>"
  from c f have "create_order eng smb sd qty otype prc tp sl lev =
                   ((True, OrderCreatedSuccessfully, Some ?ord),
                    eng\<lparr>uuid_next := Suc (uuid_next eng),
                        orders := dict_set (uuid_next eng) ?ord (orders eng)\<rparr>)"
    by (simp add: Let_def)
  with assms have "((True, msg, Some ord), eng1) =
                   ((True, OrderCreatedSuccessfully, Some ?ord),
                    eng\<lparr>uuid_next := Suc (uuid_next eng),
                        orders := dict_set (uuid_next eng) ?ord (orders eng)\<rparr>)"
    by (rule trans [OF sym])
  then have e: "ord = ?ord"
    and e1: "eng1 = eng\<lparr>uuid_next := Suc (uuid_next eng),
                        orders := dict_set (uuid_next eng) ?ord (orders eng)\<rparr>"
    by (simp_all only: prod.inject option.inject)
  have o: "o_quantity ord = qty" "o_leverage ord = Some (leverage_or_default lev)"
    "order_id ord = uuid_next eng"
    by (simp_all add: e)
  have o4: "orders eng1 = dict_set (uuid_next eng) ord (orders eng)"
    by (simp add: e1 e)
  from o v show "0 < o_quantity ord" by simp
  from o show "o_quantity ord = qty" by simp
  from o show "o_leverage ord \<noteq> Some 0" by (simp add: leverage_or_default_nonzero)
  from f show "balances (balance_manager eng) ''USDT'' \<noteq> None" by (rule can_place_order_True)
  from o o4 show "set (orders eng1) \<subseteq> insert (order_id ord, ord) (set (orders eng))"
    using set_dict_set [of "uuid_next eng" ord "orders eng"] by simp
qed

lemma execute_order_succeeds:
  assumes "o_leverage ord \<noteq> Some 0" and "balances bm ''USDT'' \<noteq> None"
  shows "fst (execute_order bm ord p q)"
    and "snd (snd (execute_order bm ord p q)) =
           ord\<lparr>executed_price := p, executed_quantity := q,
               commission := calculate_commission (q * p), status := FILLED\<rparr>"
  using assms
  by (auto simp: execute_order_def Let_def side_values_differ split: option.splits)

section \<open>The take-profit and stop-loss scan\<close>

lemma execute_market_order_history:
  assumes "o_leverage ord \<noteq> Some 0" and "balances (balance_manager eng) ''USDT'' \<noteq> None"
  shows "order_history (snd (execute_market_order eng ord cur_price high low))
           = order_history eng
             @ [ord\<lparr>executed_price := fill_price (o_side ord) (o_quantity ord) cur_price,
                    executed_quantity := o_quantity ord,
                    commission := calculate_commission
                       (o_quantity ord * fill_price (o_side ord) (o_quantity ord) cur_price),
                    status := FILLED\<rparr>]"
proof -
  let ?ep = "fill_price (o_side ord) (o_quantity ord) cur_price"
  obtain s bm' ord' where
    e: "execute_order (balance_manager eng) ord ?ep (o_quantity ord) = (s, bm', ord')"
    by (metis prod_cases3)
  from execute_order_succeeds [OF assms, of ?ep "o_quantity ord"] e
  have s and "ord' = ord\<lparr>executed_price := ?ep, executed_quantity := o_quantity ord,
                          commission := calculate_commission (o_quantity ord * ?ep),
                          status := FILLED\<rparr>"
    by simp_all
  with e show ?thesis
    by (simp add: execute_market_order_def Let_def fill_price_def)
qed

lemma get_slippage_pos: "0 < get_slippage v"
  by (simp add: get_slippage_steps)

lemma fill_price_neq: "trig \<noteq> 0 \<Longrightarrow> fill_price sd qty trig \<noteq> trig"
  using get_slippage_pos [of "qty * trig"]
  by (auto simp: fill_price_def calculate_slippage_def)

lemma tp_entries_nonzero:
  "(a', kind, trig) \<in> set (tp_entries a p high low) \<Longrightarrow> trig \<noteq> 0"
  by (cases "take_profit_price p") (auto simp: tp_entries_def truthy_def split: if_splits)

lemma sl_entries_nonzero:
  "(a', kind, trig) \<in> set (sl_entries a p high low) \<Longrightarrow> trig \<noteq> 0"
  by (cases "stop_loss_price p") (auto simp: sl_entries_def truthy_def split: if_splits)

lemma check_tp_sl_improved_nonzero:
  assumes "(a, kind, trig) \<in> set (check_tp_sl_improved eng smb open_price high low close)"
  shows "trig \<noteq> 0"
proof -
  from assms obtain k a0 where
    m: "(a, kind, trig) \<in> set (let p = heap (balance_manager eng) ! a0
           in if symbol p \<noteq> smb then []
              else tp_entries a0 p high low @ sl_entries a0 p high low)"
    by (auto simp: check_tp_sl_improved_def)
  then have "(a, kind, trig) \<in> set (tp_entries a0 (heap (balance_manager eng) ! a0) high low)
           \<or> (a, kind, trig) \<in> set (sl_entries a0 (heap (balance_manager eng) ! a0) high low)"
    by (auto simp: Let_def split: if_splits)
  then show ?thesis
    using tp_entries_nonzero sl_entries_nonzero by blast
qed

lemma engine_long_tp_eq:
  "engine_long_tp =
     \<lparr> balance_manager =
         \<lparr> initial_balance = 1000,
           balances = [''USDT'' \<mapsto> \<lparr>asset = ''USDT'', free = 1000 - (2001 / 200 + 14007 / 200000),
                                     locked = 0,
                                     total_balance = 1000 - (2001 / 200 + 14007 / 200000)\<rparr>],
           positions = [(''ADA-USDT_LONG'', 0)],
           heap = [\<lparr> symbol = ''ADA-USDT'', side = LONG, quantity = 100,
                     entry_price = 2001 / 2000, current_price = 2001 / 2000,
                     unrealized_pnl = 0, realized_pnl = 0, leverage = 10, margin = 2001 / 200,
                     take_profit_price = Some (105 / 100), stop_loss_price = None \<rparr>],
           total_pnl = 0 \<rparr>,
       orders = [],
       order_history = [\<lparr> order_id = 0, o_symbol = ''ADA-USDT'', o_side = BUY,
                          position_side = LONG, order_type = MARKET, o_quantity = 100, price = 0,
                          executed_price = 2001 / 2000, executed_quantity = 100, status = FILLED,
                          o_take_profit_price = Some (105 / 100),
                          o_stop_loss_price = None,
                          commission = 14007 / 200000, o_leverage = Some 10 \<rparr>],
       uuid_next = 1 \<rparr>"
  by (simp add: engine_long_tp_def engine0_eq engine_defs)

section \<open>The book invariant\<close>

lemma book_okD:
  "book_ok bm \<Longrightarrow> (k, a) \<in> set (positions bm) \<Longrightarrow>
     a < length (heap bm) \<and> 0 < quantity (heap bm ! a)
     \<and> k = symbol (heap bm ! a) @ ''_'' @ PositionSide_value (side (heap bm ! a))"
  by (auto simp: book_ok_def)

lemma book_ok_unchanged:
  "book_ok bm \<Longrightarrow> positions bm' = positions bm \<Longrightarrow> heap bm' = heap bm \<Longrightarrow> book_ok bm'"
  by (simp add: book_ok_def)

lemma book_ok_reduce:
  assumes ok: "book_ok bm" and m: "map_of (positions bm) key = Some a"
    and q: "0 < quantity p'" and sy: "symbol p' = symbol (heap bm ! a)"
    and sd: "side p' = side (heap bm ! a)"
    and ps: "positions bm' = positions bm" and hp: "heap bm' = (heap bm)[a := p']"
  shows "book_ok bm'"
proof -
  from m have ka: "(key, a) \<in> set (positions bm)" by (rule map_of_SomeD)
  from book_okD [OF ok ka] have al: "a < length (heap bm)" by simp
  show ?thesis
    unfolding book_ok_def ps hp
  proof (clarsimp)
    fix k a' assume "(k, a') \<in> set (positions bm)"
    from book_okD [OF ok this]
    have 1: "a' < length (heap bm)" and 2: "0 < quantity (heap bm ! a')"
      and 3: "k = symbol (heap bm ! a') @ ''_'' @ PositionSide_value (side (heap bm ! a'))"
      by simp_all
    show "a' < length (heap bm) \<and> 0 < quantity ((heap bm)[a := p'] ! a')
          \<and> k = symbol ((heap bm)[a := p'] ! a') @ CHR ''_'' # PositionSide_value (side ((heap bm)[a := p'] ! a'))"
      using 1 2 3 al q sy sd by (cases "a' = a") simp_all
  qed
qed

lemma book_ok_close:
  assumes ok: "book_ok bm" and m: "map_of (positions bm) key = Some a"
    and ps: "positions bm' = dict_del key (positions bm)" and hp: "heap bm' = (heap bm)[a := p']"
  shows "book_ok bm'"
proof -
  from m have ka: "(key, a) \<in> set (positions bm)" by (rule map_of_SomeD)
  from book_okD [OF ok ka]
  have al: "a < length (heap bm)"
    and kf: "key = symbol (heap bm ! a) @ ''_'' @ PositionSide_value (side (heap bm ! a))"
    by simp_all
  show ?thesis
    unfolding book_ok_def ps hp
  proof (clarsimp simp: dict_del_def)
    fix k a' assume in_book: "(k, a') \<in> set (positions bm)" and ne: "k \<noteq> key"
    from book_okD [OF ok in_book]
    have 1: "a' < length (heap bm)" and 2: "0 < quantity (heap bm ! a')"
      and 3: "k = symbol (heap bm ! a') @ ''_'' @ PositionSide_value (side (heap bm ! a'))"
      by simp_all
    from 3 kf ne have "a' \<noteq> a" by auto
    then show "a' < length (heap bm) \<and> 0 < quantity ((heap bm)[a := p'] ! a')
          \<and> k = symbol ((heap bm)[a := p'] ! a') @ CHR ''_'' # PositionSide_value (side ((heap bm)[a := p'] ! a'))"
      using 1 2 3 by simp
  qed
qed

lemma book_ok_open:
  assumes ok: "book_ok bm" and q: "0 < quantity p'"
    and kf: "key = symbol p' @ ''_'' @ PositionSide_value (side p')"
    and ps: "positions bm' = positions bm @ [(key, length (heap bm))]"
    and hp: "heap bm' = heap bm @ [p']"
  shows "book_ok bm'"
  using ok q kf unfolding book_ok_def ps hp by (fastforce simp: nth_append)

lemma execute_order_fail:
  assumes "o_leverage ord = Some 0 \<or> balances bm ''USDT'' = None"
  shows "execute_order bm ord p q = (False, bm, ord)"
proof (cases "o_leverage ord = Some 0")
  case True
  then show ?thesis by (simp add: execute_order_def Let_def)
next
  case False
  with assms have "balances bm ''USDT'' = None" by simp
  with False show ?thesis by (simp add: execute_order_def Let_def)
qed

lemma execute_order_open:
  assumes "o_leverage ord \<noteq> Some 0" and "balances bm ''USDT'' = Some usdt0"
    and "map_of (positions bm) (position_key ord) = None"
  shows "fst (execute_order bm ord p q)"
    and "positions (fst (snd (execute_order bm ord p q)))
           = positions bm @ [(position_key ord, length (heap bm))]"
    and "\<exists>p'. heap (fst (snd (execute_order bm ord p q))) = heap bm @ [p']
              \<and> quantity p' = q \<and> symbol p' = o_symbol ord \<and> side p' = position_side ord"
  using assms by (simp_all add: execute_order_def Let_def)

lemma execute_order_reduce:
  assumes "o_leverage ord \<noteq> Some 0" and "balances bm ''USDT'' = Some usdt0"
    and "map_of (positions bm) (position_key ord) = Some a"
    and "0 < quantity (heap bm ! a) - q"
  shows "fst (execute_order bm ord p q)"
    and "positions (fst (snd (execute_order bm ord p q))) = positions bm"
    and "heap (fst (snd (execute_order bm ord p q)))
           = (heap bm)[a := (heap bm ! a)\<lparr>quantity := quantity (heap bm ! a) - q\<rparr>]"
  using assms by (simp_all add: execute_order_def Let_def side_values_differ)

lemma execute_order_close:
  assumes "o_leverage ord \<noteq> Some 0" and "balances bm ''USDT'' = Some usdt0"
    and "map_of (positions bm) (position_key ord) = Some a"
    and "quantity (heap bm ! a) - q \<le> 0"
  shows "fst (execute_order bm ord p q)"
    and "positions (fst (snd (execute_order bm ord p q)))
           = dict_del (position_key ord) (positions bm)"
    and "\<exists>p'. heap (fst (snd (execute_order bm ord p q))) = (heap bm)[a := p']"
  using assms by (auto simp: execute_order_def Let_def side_values_differ)

lemma execute_order_book_ok:
  assumes ok: "book_ok bm" and q: "0 < q"
  shows "book_ok (fst (snd (execute_order bm ord p q)))"
proof (cases "o_leverage ord = Some 0 \<or> balances bm ''USDT'' = None")
  case True
  from execute_order_fail [OF this] ok show ?thesis by simp
next
  case False
  then obtain usdt0 where l: "o_leverage ord \<noteq> Some 0"
    and b: "balances bm ''USDT'' = Some usdt0" by auto
  let ?r = "fst (snd (execute_order bm ord p q))"
  show ?thesis
  proof (cases "map_of (positions bm) (position_key ord)")
    case None
    from execute_order_open(2,3) [OF l b None, of p q] obtain p' where
      "positions ?r = positions bm @ [(position_key ord, length (heap bm))]"
      "heap ?r = heap bm @ [p']" "quantity p' = q" "symbol p' = o_symbol ord"
      "side p' = position_side ord"
      by blast
    with ok q show ?thesis
      by (intro book_ok_open [of bm p' "position_key ord" ?r]) (simp_all add: position_key_def)
  next
    case (Some a)
    show ?thesis
    proof (cases "quantity (heap bm ! a) - q \<le> 0")
      case True
      from execute_order_close(2,3) [OF l b Some True, of p] obtain p' where
        "positions ?r = dict_del (position_key ord) (positions bm)"
        "heap ?r = (heap bm)[a := p']"
        by blast
      with ok Some show ?thesis
        by (intro book_ok_close [of bm "position_key ord" a ?r p']) simp_all
    next
      case False
      then have pos: "0 < quantity (heap bm ! a) - q" by simp
      from execute_order_reduce(2,3) [OF l b Some pos, of p] ok Some pos show ?thesis
        by (intro book_ok_reduce [of bm "position_key ord" a
              "(heap bm ! a)\<lparr>quantity := quantity (heap bm ! a) - q\<rparr>" ?r]) simp_all
    qed
  qed
qed

lemma mark_position_fields:
  "symbol (mark_position c p) = symbol p" "side (mark_position c p) = side p"
  "quantity (mark_position c p) = quantity p"
  by (simp_all add: mark_position_def)

lemma update_position_prices_fold:
  "positions (fold (\<lambda>(k, a) b.
             if symbol (heap b ! a) = smb
             then b\<lparr>heap := (heap b)[a := mark_position c (heap b ! a)]\<rparr>
             else b) xs bm) = positions bm
   \<and> length (heap (fold (\<lambda>(k, a) b.
             if symbol (heap b ! a) = smb
             then b\<lparr>heap := (heap b)[a := mark_position c (heap b ! a)]\<rparr>
             else b) xs bm)) = length (heap bm)
   \<and> (\<forall>i. symbol (heap (fold (\<lambda>(k, a) b.
             if symbol (heap b ! a) = smb
             then b\<lparr>heap := (heap b)[a := mark_position c (heap b ! a)]\<rparr>
             else b) xs bm) ! i) = symbol (heap bm ! i)
         \<and> side (heap (fold (\<lambda>(k, a) b.
             if symbol (heap b ! a) = smb
             then b\<lparr>heap := (heap b)[a := mark_position c (heap b ! a)]\<rparr>
             else b) xs bm) ! i) = side (heap bm ! i)
         \<and> quantity (heap (fold (\<lambda>(k, a) b.
             if symbol (heap b ! a) = smb
             then b\<lparr>heap := (heap b)[a := mark_position c (heap b ! a)]\<rparr>
             else b) xs bm) ! i) = quantity (heap bm ! i))"
proof (induction xs arbitrary: bm)
  case Nil
  then show ?case by simp
next
  case (Cons x xs)
  obtain k a where x: "x = (k, a)" by (cases x) auto
  let ?b = "if symbol (heap bm ! a) = smb
            then bm\<lparr>heap := (heap bm)[a := mark_position c (heap bm ! a)]\<rparr> else bm"
  have p: "positions ?b = positions bm" and l: "length (heap ?b) = length (heap bm)" by simp_all
  have f: "symbol (heap ?b ! i) = symbol (heap bm ! i) \<and> side (heap ?b ! i) = side (heap bm ! i)
         \<and> quantity (heap ?b ! i) = quantity (heap bm ! i)" for i
    by (cases "i = a"; cases "a < length (heap bm)")
       (simp_all add: mark_position_fields list_update_beyond)
  from Cons.IH [of ?b] p l f show ?case
    unfolding x by simp
qed

lemma update_position_prices_book_ok:
  assumes "book_ok bm"
  shows "book_ok (update_position_prices bm smb c)"
  using assms update_position_prices_fold [of smb c "positions bm" bm]
  unfolding update_position_prices_def book_ok_def by auto

lemma update_position_prices_positions:
  "positions (update_position_prices bm smb c) = positions bm"
  using update_position_prices_fold [of smb c "positions bm" bm]
  unfolding update_position_prices_def by simp

lemma engine_ok_create:
  assumes "engine_ok eng"
  shows "engine_ok (snd (create_order eng smb sd qty otype prc tp sl lev))"
proof (cases "fst (fst (create_order eng smb sd qty otype prc tp sl lev))")
  case False
  from create_order_not_success [OF this] assms show ?thesis
    by (simp add: engine_ok_def)
next
  case True
  then have v: "sd \<in> {''BUY'', ''SELL''} \<and> otype \<in> {''MARKET'', ''LIMIT''} \<and> 0 < qty"
    using create_order_invalid [of sd otype qty eng smb prc tp sl lev] by fastforce
  let ?ord = "\<lparr> order_id = uuid_next eng, o_symbol = smb,
                  o_side = (if sd = ''BUY'' then BUY else SELL),
                  position_side = (if sd = ''BUY'' then LONG else SHORT),
                  order_type = (if otype = ''MARKET'' then MARKET else LIMIT),
                  o_quantity = qty, price = prc, executed_price = 0, executed_quantity = 0,
                  status = PENDING, o_take_profit_price = tp, o_stop_loss_price = sl,
                  commission = 0, o_leverage = Some (leverage_or_default lev) \<rparr>"
  from v True have o: "orders (snd (create_order eng smb sd qty otype prc tp sl lev))
                  = dict_set (uuid_next eng) ?ord (orders eng)"
    by (auto simp: create_order_checked Let_def split: if_splits)
  have b: "balance_manager (snd (create_order eng smb sd qty otype prc tp sl lev))
             = balance_manager eng"
    by (rule create_order_balance_manager)
  from v have "0 < o_quantity ?ord" by simp
  with assms set_dict_set [of "uuid_next eng" ?ord "orders eng"] show ?thesis
    unfolding engine_ok_def o b by blast
qed

lemma engine_ok_execute_market:
  assumes ok: "engine_ok eng" and q: "0 < o_quantity ord"
  shows "engine_ok (snd (execute_market_order eng ord cur_price high low))"
proof -
  let ?ep = "fill_price (o_side ord) (o_quantity ord) cur_price"
  obtain s bm' ord' where
    e: "execute_order (balance_manager eng) ord ?ep (o_quantity ord) = (s, bm', ord')"
    by (metis prod_cases3)
  from ok have "book_ok (balance_manager eng)" by (simp add: engine_ok_def)
  from execute_order_book_ok [OF this q, of ord ?ep] e have b: "book_ok bm'" by simp
  from e have r: "snd (execute_market_order eng ord cur_price high low)
          = (if s then eng\<lparr>balance_manager := bm',
                         order_history := order_history eng @ [ord'],
                         orders := dict_del (order_id ord) (orders eng)\<rparr>
             else eng\<lparr>balance_manager := bm'\<rparr>)"
    by (simp add: execute_market_order_def Let_def fill_price_def)
  from ok b set_dict_del [of "order_id ord" "orders eng"] show ?thesis
    unfolding r engine_ok_def by (cases s) auto
qed

lemma engine_ok_close_triggered:
  assumes ok: "engine_ok eng"
  shows "engine_ok (close_triggered smb high low entry eng)"
proof -
  obtain a kind trig where en: "entry = (a, kind, trig)" by (cases entry) auto
  let ?pos = "heap (balance_manager eng) ! a"
  let ?sd = "if PositionSide_value (side ?pos) = ''LONG'' then ''SELL'' else ''BUY''"
  let ?c = "create_order eng smb ?sd (quantity ?pos) ''MARKET'' 0 None None None"
  obtain success msg ordo eng1 where c: "?c = ((success, msg, ordo), eng1)"
    by (metis prod_cases3 prod.exhaust)
  from engine_ok_create [OF ok, of smb ?sd "quantity ?pos" "''MARKET''" 0 None None None] c
  have ok1: "engine_ok eng1" by simp
  show ?thesis
  proof (cases "success \<and> ordo \<noteq> None")
    case True
    then obtain ord where o: "ordo = Some ord" and s: success by auto
    from c o s have cs: "?c = ((True, msg, Some ord), eng1)" by simp
    from create_order_success(1) [OF cs] have q: "0 < o_quantity ord" .
    have ct: "close_triggered smb high low entry eng
                     = snd (execute_market_order eng1 ord trig high low)"
      using c o s by (simp add: close_triggered_def Let_def en)
    show ?thesis
      unfolding ct by (rule engine_ok_execute_market [OF ok1 q])
  next
    case False
    with c have "close_triggered smb high low entry eng = eng1"
      by (cases ordo) (simp_all add: close_triggered_def Let_def en)
    with ok1 show ?thesis by simp
  qed
qed

lemma engine_ok_tp_sl_loop:
  "engine_ok eng \<Longrightarrow> engine_ok (fold (close_triggered smb high low) entries eng)"
  by (induction entries arbitrary: eng) (simp_all add: engine_ok_close_triggered)

lemma engine_ok_pending_loop:
  "engine_ok eng \<Longrightarrow> \<forall>ord \<in> set pending. 0 < o_quantity ord \<Longrightarrow>
   engine_ok (fold (\<lambda>ord e. snd (execute_market_order e ord close high low)) pending eng)"
  by (induction pending arbitrary: eng) (simp_all add: engine_ok_execute_market)

lemma pending_market_orders_positive:
  "engine_ok eng \<Longrightarrow> \<forall>ord \<in> set (pending_market_orders eng smb). 0 < o_quantity ord"
  by (auto simp: engine_ok_def pending_market_orders_def)

lemma engine_ok_process_candle:
  assumes "engine_ok eng"
  shows "engine_ok (process_candle eng smb open_price high low close volume)"
proof -
  let ?eng1 = "eng\<lparr>balance_manager := update_position_prices (balance_manager eng) smb close\<rparr>"
  from assms have "engine_ok ?eng1"
    by (simp add: engine_ok_def update_position_prices_book_ok)
  then have 2: "engine_ok (fold (close_triggered smb high low)
                   (check_tp_sl_improved ?eng1 smb open_price high low close) ?eng1)"
    by (rule engine_ok_tp_sl_loop)
  show ?thesis
    unfolding process_candle_def Let_def
    by (rule engine_ok_pending_loop [OF 2 pending_market_orders_positive [OF 2]])
qed

lemma engine_ok_cancel:
  assumes "engine_ok eng"
  shows "engine_ok (snd (cancel_order eng oid))"
  using assms set_dict_del [of oid "orders eng"]
  by (cases "map_of (orders eng) oid") (auto simp: cancel_order_def engine_ok_def)

lemma engine_ok_apply_request:
  assumes ok: "engine_ok eng"
  shows "engine_ok (apply_request eng r)"
proof (cases r)
  case (CreateOrder smb sd qty otype prc tp sl lev)
  with ok show ?thesis by (simp add: engine_ok_create)
next
  case (ExecuteMarket oid cur_price high low)
  show ?thesis
  proof (cases "map_of (orders eng) oid")
    case None
    with ExecuteMarket ok show ?thesis by simp
  next
    case (Some ord)
    then have "(oid, ord) \<in> set (orders eng)" by (rule map_of_SomeD)
    with ok have "0 < o_quantity ord" by (auto simp: engine_ok_def)
    with ExecuteMarket Some ok show ?thesis by (simp add: engine_ok_execute_market)
  qed
next
  case (ProcessCandle smb open_price high low close volume)
  with ok show ?thesis by (simp add: engine_ok_process_candle)
next
  case (CancelOrder oid)
  with ok show ?thesis by (simp add: engine_ok_cancel)
qed

lemma engine_ok_init: "engine_ok (OrderEngine_init (BalanceManager_init ib))"
  by (simp add: engine_ok_def book_ok_def OrderEngine_init_def BalanceManager_init_def Let_def)

lemma engine_ok_run_requests:
  "engine_ok eng \<Longrightarrow> engine_ok (run_requests eng rs)"
  unfolding run_requests_def
  by (induction rs arbitrary: eng) (simp_all add: engine_ok_apply_request)

lemma map_of_dict_del_other: "k \<noteq> key \<Longrightarrow> map_of (dict_del key d) k = map_of d k"
  by (induction d) (auto simp: dict_del_def)

lemma execute_order_removes:
  assumes m: "map_of (positions bm) k = Some a"
  shows "(map_of (positions (fst (snd (execute_order bm ord p q)))) k = None)
         = (fst (execute_order bm ord p q) \<and> k = position_key ord
            \<and> quantity (heap bm ! a) - q \<le> 0)"
proof (cases "o_leverage ord = Some 0 \<or> balances bm ''USDT'' = None")
  case True
  from execute_order_fail [OF this] m show ?thesis by simp
next
  case False
  then obtain usdt0 where l: "o_leverage ord \<noteq> Some 0"
    and b: "balances bm ''USDT'' = Some usdt0" by auto
  show ?thesis
  proof (cases "map_of (positions bm) (position_key ord)")
    case None
    with m have "k \<noteq> position_key ord" by auto
    with execute_order_open(2) [OF l b None, of p q] m show ?thesis
      by (simp add: map_add_def)
  next
    case (Some a0)
    show ?thesis
    proof (cases "quantity (heap bm ! a0) - q \<le> 0")
      case True
      from execute_order_close(1,2) [OF l b Some True, of p] m Some True show ?thesis
        by (cases "k = position_key ord") (simp_all add: map_of_dict_del map_of_dict_del_other)
    next
      case False
      then have pos: "0 < quantity (heap bm ! a0) - q" by simp
      from execute_order_reduce(1,2) [OF l b Some pos, of p] m Some False show ?thesis
        by auto
    qed
  qed
qed

lemma run_open_long_requests:
  "run_requests (OrderEngine_init (BalanceManager_init None)) open_long_requests
     = engine_long_tp"
proof -
  have c: "create_order engine0 ''ADA-USDT'' ''BUY'' 100 ''MARKET'' 0 (Some (105 / 100)) None None
             = ((True, OrderCreatedSuccessfully,
                 Some \<lparr> order_id = 0, o_symbol = ''ADA-USDT'', o_side = BUY,
                        position_side = LONG, order_type = MARKET, o_quantity = 100, price = 0,
                        executed_price = 0, executed_quantity = 0, status = PENDING,
                        o_take_profit_price = Some (105 / 100), o_stop_loss_price = None,
                        commission = 0, o_leverage = Some 10 \<rparr>),
                engine0\<lparr>uuid_next := 1,
                  orders := [(0, \<lparr> order_id = 0, o_symbol = ''ADA-USDT'', o_side = BUY,
                        position_side = LONG, order_type = MARKET, o_quantity = 100, price = 0,
                        executed_price = 0, executed_quantity = 0, status = PENDING,
                        o_take_profit_price = Some (105 / 100), o_stop_loss_price = None,
                        commission = 0, o_leverage = Some 10 \<rparr>)]\<rparr>)"
    by (simp add: engine0_eq create_order_def can_place_order_def OrderSide_of_def
          OrderType_of_def leverage_or_default_def dict_set_def Let_def
          calculate_commission_def COMMISSION_RATE_def MIN_COMMISSION_def DEFAULT_LEVERAGE_def)
  have i: "OrderEngine_init (BalanceManager_init None) = engine0"
    by (simp add: engine0_def)
  show ?thesis
    unfolding i run_requests_def open_long_requests_def engine_long_tp_def place_market_order_def
    using c by simp
qed

text \<open>
  After every sequence of operations on a fresh engine, every position in the book has
  a quantity greater than zero. In the code an execution removes the position stored
  under a key from the book exactly when it succeeds, is a fill on that key (the key of
  the order's own direction) and brings the position's quantity to zero or below;
  marking positions at a price removes nothing (and \<open>create_order\<close> and
  \<open>cancel_order\<close> do not touch the balance manager).
\<close>

lemma book_quantity_positive:
  "(let bm = balance_manager (run_requests (OrderEngine_init (BalanceManager_init ib)) rs)
    in \<forall>(k, a) \<in> set (positions bm). 0 < quantity (heap bm ! a))
   \<and> (\<forall>k a. map_of (positions bm0) k = Some a \<longrightarrow>
         (map_of (positions (fst (snd (execute_order bm0 ord p q)))) k = None)
          = (fst (execute_order bm0 ord p q) \<and> k = position_key ord
             \<and> quantity (heap bm0 ! a) - q \<le> 0))
   \<and> positions (update_position_prices bm0 smb c) = positions bm0"
proof -
  have "engine_ok (run_requests (OrderEngine_init (BalanceManager_init ib)) rs)"
    by (rule engine_ok_run_requests [OF engine_ok_init])
  then have "book_ok (balance_manager (run_requests (OrderEngine_init (BalanceManager_init ib)) rs))"
    by (simp add: engine_ok_def)
  then have 1: "let bm = balance_manager (run_requests (OrderEngine_init (BalanceManager_init ib)) rs)
    in \<forall>(k, a) \<in> set (positions bm). 0 < quantity (heap bm ! a)"
    unfolding Let_def book_ok_def by fast
  have 2: "\<forall>k a. map_of (positions bm0) k = Some a \<longrightarrow>
         (map_of (positions (fst (snd (execute_order bm0 ord p q)))) k = None)
          = (fst (execute_order bm0 ord p q) \<and> k = position_key ord
             \<and> quantity (heap bm0 ! a) - q \<le> 0)"
    by (intro allI impI) (rule execute_order_removes)
  from 1 2 show ?thesis
    by (intro conjI) (simp_all only: update_position_prices_positions)
qed

lemma ada_usdt_not_compound: "''ADA-USDT'' \<noteq> x @ ''_'' @ PositionSide_value d"
proof
  assume "''ADA-USDT'' = x @ ''_'' @ PositionSide_value d"
  then have "take 2 (rev ''ADA-USDT'') = take 2 (rev (x @ ''_'' @ PositionSide_value d))"
    by (rule arg_cong)
  then show False by (cases d) simp_all
qed

text \<open>
  C10, as the code has it. After every sequence of operations on a fresh engine, every
  position in the book is stored under its symbol, an underscore and its direction, and
  \<open>get_position\<close> with the position's bare symbol does not return that position. For
  every string that is not itself of the form \<open>x_LONG\<close> or \<open>x_SHORT\<close>,
  \<open>get_position\<close> returns \<open>None\<close>.
\<close>

theorem get_position_bare_symbol:
  "(let bm = balance_manager (run_requests (OrderEngine_init (BalanceManager_init ib)) rs)
    in (\<forall>(k, a) \<in> set (positions bm).
          k = symbol (heap bm ! a) @ ''_'' @ PositionSide_value (side (heap bm ! a))
          \<and> get_position bm (symbol (heap bm ! a)) \<noteq> Some a)
       \<and> (\<forall>s. (\<forall>x d. s \<noteq> x @ ''_'' @ PositionSide_value d) \<longrightarrow> get_position bm s = None))"
proof -
  define bm where
    "bm = balance_manager (run_requests (OrderEngine_init (BalanceManager_init ib)) rs)"
  have "engine_ok (run_requests (OrderEngine_init (BalanceManager_init ib)) rs)"
    by (rule engine_ok_run_requests [OF engine_ok_init])
  then have ok: "book_ok bm"
    by (simp add: engine_ok_def bm_def)
  have key: "k = symbol (heap bm ! a) @ ''_'' @ PositionSide_value (side (heap bm ! a))"
    if "(k, a) \<in> set (positions bm)" for k a
    using book_okD [OF ok that] by simp
  have 1: "get_position bm (symbol (heap bm ! a)) \<noteq> Some a"
    if "(k, a) \<in> set (positions bm)" for k a
  proof
    assume "get_position bm (symbol (heap bm ! a)) = Some a"
    then have "(symbol (heap bm ! a), a) \<in> set (positions bm)"
      unfolding get_position_def by (rule map_of_SomeD)
    from key [OF this] show False by simp
  qed
  have 2: "get_position bm s = None" if n: "\<forall>x d. s \<noteq> x @ ''_'' @ PositionSide_value d" for s
  proof (cases "get_position bm s")
    case None
    then show ?thesis .
  next
    case (Some a)
    then have "(s, a) \<in> set (positions bm)"
      unfolding get_position_def by (rule map_of_SomeD)
    from key [OF this] n show ?thesis by blast
  qed
  from key 1 2 show ?thesis
    unfolding Let_def bm_def [symmetric] by blast
qed

theorem get_position_bare_symbol_witness:
  "positions (balance_manager (run_requests (OrderEngine_init (BalanceManager_init None))
                                 open_long_requests)) = [(''ADA-USDT_LONG'', 0)]
   \<and> symbol (heap (balance_manager (run_requests
            (OrderEngine_init (BalanceManager_init None)) open_long_requests)) ! 0) = ''ADA-USDT''
   \<and> get_position (balance_manager (run_requests
            (OrderEngine_init (BalanceManager_init None)) open_long_requests)) ''ADA-USDT''
       = None"
proof -
  note t = get_position_bare_symbol [of None open_long_requests]
  have p: "positions (balance_manager engine_long_tp) = [(''ADA-USDT_LONG'', 0)]"
    and s: "symbol (heap (balance_manager engine_long_tp) ! 0) = ''ADA-USDT''"
    by (simp_all add: engine_long_tp_eq)
  from t have "\<forall>s. (\<forall>x d. s \<noteq> x @ ''_'' @ PositionSide_value d)
                 \<longrightarrow> get_position (balance_manager engine_long_tp) s = None"
    unfolding run_open_long_requests Let_def by (rule conjunct2)
  then have "get_position (balance_manager engine_long_tp) ''ADA-USDT'' = None"
    using ada_usdt_not_compound by blast
  with p s show ?thesis
    by (simp add: run_open_long_requests)
qed

lemma first_symbol_eq:
  "place_market_order engine0 ''A'' ''BUY'' 1 None None 1 1 1 =
     \<lparr> balance_manager =
         \<lparr> initial_balance = 1000,
           balances = [''USDT'' \<mapsto> \<lparr>asset = ''USDT'', free = 1000 - (10001 / 100000 + 4 / 100),
                                     locked = 0,
                                     total_balance = 1000 - (10001 / 100000 + 4 / 100)\<rparr>],
           positions = [(''A_LONG'', 0)],
           heap = [\<lparr> symbol = ''A'', side = LONG, quantity = 1, entry_price = 10001 / 10000,
                     current_price = 10001 / 10000, unrealized_pnl = 0, realized_pnl = 0,
                     leverage = 10, margin = 10001 / 100000,
                     take_profit_price = None, stop_loss_price = None \<rparr>],
           total_pnl = 0 \<rparr>,
       orders = [],
       order_history = [\<lparr> order_id = 0, o_symbol = ''A'', o_side = BUY,
                          position_side = LONG, order_type = MARKET, o_quantity = 1, price = 0,
                          executed_price = 10001 / 10000, executed_quantity = 1, status = FILLED,
                          o_take_profit_price = None, o_stop_loss_price = None,
                          commission = 4 / 100, o_leverage = Some 10 \<rparr>],
       uuid_next = 1 \<rparr>"
  by (simp add: engine0_eq engine_defs)

text \<open>
  C10 as stated fails when a symbol is itself a compound key: with positions opened for
  the symbols \<open>A\<close> and \<open>A_LONG\<close>, the book has the keys \<open>A_LONG\<close> and
  \<open>A_LONG_LONG\<close>, and \<open>get_position\<close> with the symbol \<open>A_LONG\<close> of the second
  position returns the first position, not \<open>None\<close>.
\<close>

theorem get_position_counterexample:
  "map (\<lambda>(k, a). (k, a, symbol (heap (balance_manager engine_two_symbols) ! a)))
       (positions (balance_manager engine_two_symbols))
     = [(''A_LONG'', 0, ''A''), (''A_LONG_LONG'', 1, ''A_LONG'')]
   \<and> get_position (balance_manager engine_two_symbols) ''A_LONG'' = Some 0"
  by (simp add: engine_two_symbols_def first_symbol_eq get_position_def) (simp add: engine_defs)

section \<open>The candle loop\<close>

lemma position_side_value_long: "(PositionSide_value d = ''LONG'') = (d = LONG)"
  by (cases d) simp_all

lemma can_place_order_zero:
  "fst (can_place_order bm smb sd qty 0 (Some (leverage_or_default lev)))
     = (case balances bm ''USDT'' of None \<Rightarrow> False | Some b \<Rightarrow> MIN_COMMISSION \<le> free b)"
proof (cases "balances bm ''USDT''")
  case None
  then show ?thesis by (simp add: can_place_order_def Let_def)
next
  case (Some b)
  then show ?thesis
    by (simp add: can_place_order_usdt Let_def calculate_commission_zero not_less)
qed

lemma set_dict_del_set: "set (dict_del k (dict_set k v d)) \<subseteq> set d"
  by (auto simp: dict_del_def dict_set_def split: if_splits)

lemma execute_order_result:
  assumes "fst (execute_order bm ord p q)"
  shows "snd (snd (execute_order bm ord p q)) =
           ord\<lparr>executed_price := p, executed_quantity := q,
               commission := calculate_commission (q * p), status := FILLED\<rparr>"
proof (cases "o_leverage ord = Some 0 \<or> balances bm ''USDT'' = None")
  case True
  from execute_order_fail [OF this] assms show ?thesis by simp
next
  case False
  then have "o_leverage ord \<noteq> Some 0" "balances bm ''USDT'' \<noteq> None" by auto
  then show ?thesis by (rule execute_order_succeeds(2))
qed

lemma execute_market_order_unfold:
  "\<exists>bm' ord'. execute_market_order eng ord cur_price high low
          = (if fst (execute_market_order eng ord cur_price high low)
             then (True, eng\<lparr>balance_manager := bm',
                         order_history := order_history eng
                           @ [ord\<lparr>executed_price := fill_price (o_side ord) (o_quantity ord) cur_price,
                                  executed_quantity := o_quantity ord,
                                  commission := calculate_commission
                                    (o_quantity ord
                                     * fill_price (o_side ord) (o_quantity ord) cur_price),
                                  status := FILLED\<rparr>],
                         orders := dict_del (order_id ord) (orders eng)\<rparr>)
             else (False, eng\<lparr>balance_manager := bm'\<rparr>))"
proof -
  let ?ep = "fill_price (o_side ord) (o_quantity ord) cur_price"
  obtain s bm' ord' where
    e: "execute_order (balance_manager eng) ord ?ep (o_quantity ord) = (s, bm', ord')"
    by (metis prod_cases3)
  have r: "execute_market_order eng ord cur_price high low
          = (if s then (True, eng\<lparr>balance_manager := bm',
                         order_history := order_history eng @ [ord'],
                         orders := dict_del (order_id ord) (orders eng)\<rparr>)
             else (False, eng\<lparr>balance_manager := bm'\<rparr>))"
    using e by (simp add: execute_market_order_def Let_def fill_price_def)
  have o: "s \<Longrightarrow> ord' = ord\<lparr>executed_price := ?ep, executed_quantity := o_quantity ord,
                          commission := calculate_commission (o_quantity ord * ?ep),
                          status := FILLED\<rparr>"
    using execute_order_result [of "balance_manager eng" ord ?ep "o_quantity ord"] e by simp
  show ?thesis
    unfolding r using o by (cases s) auto
qed

lemma execute_market_order_step_history:
  "order_history (snd (execute_market_order eng ord cur_price high low))
     = order_history eng
       @ (if fst (execute_market_order eng ord cur_price high low)
          then [ord\<lparr>executed_price := fill_price (o_side ord) (o_quantity ord) cur_price,
                    executed_quantity := o_quantity ord,
                    commission := calculate_commission
                       (o_quantity ord * fill_price (o_side ord) (o_quantity ord) cur_price),
                    status := FILLED\<rparr>]
          else [])"
  using execute_market_order_unfold [of eng ord cur_price high low]
  by (cases "fst (execute_market_order eng ord cur_price high low)") auto

lemma execute_market_order_step_orders:
  "orders (snd (execute_market_order eng ord cur_price high low))
     = (if fst (execute_market_order eng ord cur_price high low)
        then dict_del (order_id ord) (orders eng) else orders eng)"
  using execute_market_order_unfold [of eng ord cur_price high low]
  by (cases "fst (execute_market_order eng ord cur_price high low)") auto

lemma execute_market_order_success:
  assumes "o_leverage ord \<noteq> Some 0" and "balances (balance_manager eng) ''USDT'' \<noteq> None"
  shows "fst (execute_market_order eng ord cur_price high low)"
proof -
  let ?ep = "fill_price (o_side ord) (o_quantity ord) cur_price"
  obtain s bm' ord' where
    e: "execute_order (balance_manager eng) ord ?ep (o_quantity ord) = (s, bm', ord')"
    by (metis prod_cases3)
  from execute_order_succeeds(1) [OF assms, of ?ep "o_quantity ord"] e have s by simp
  with e show ?thesis
    by (simp add: execute_market_order_def Let_def fill_price_def)
qed

lemma close_triggered_exact:
  "order_history (close_triggered smb high low entry eng)
     = order_history eng @ closing_fill smb entry eng
   \<and> set (orders (close_triggered smb high low entry eng)) \<subseteq> set (orders eng)"
proof -
  obtain a kind trig where en: "entry = (a, kind, trig)" by (cases entry) auto
  let ?pos = "heap (balance_manager eng) ! a"
  let ?sd = "if PositionSide_value (side ?pos) = ''LONG'' then ''SELL'' else ''BUY''"
  let ?qty = "quantity ?pos"
  let ?c = "create_order eng smb ?sd ?qty ''MARKET'' 0 None None None"
  let ?ord = "\<lparr> order_id = uuid_next eng, o_symbol = smb,
                  o_side = (if ?sd = ''BUY'' then BUY else SELL),
                  position_side = (if ?sd = ''BUY'' then LONG else SHORT),
                  order_type = (if ''MARKET'' = ''MARKET'' then MARKET else LIMIT),
                  o_quantity = ?qty, price = 0, executed_price = 0, executed_quantity = 0,
                  status = PENDING, o_take_profit_price = None, o_stop_loss_price = None,
                  commission = 0, o_leverage = Some (leverage_or_default None) \<rparr>"
  let ?chk = "can_place_order (balance_manager eng) smb ?sd ?qty
                  (if ''MARKET'' = ''MARKET'' then 0 else 0) (Some (leverage_or_default None))"
  let ?bal = "case balances (balance_manager eng) ''USDT'' of
                None \<Rightarrow> False | Some b \<Rightarrow> MIN_COMMISSION \<le> free b"
  have chk: "fst ?chk = ?bal"
    using can_place_order_zero [of "balance_manager eng" smb ?sd ?qty None] by simp
  show ?thesis
  proof (cases "0 < ?qty")
    case False
    then have "?sd \<notin> {''BUY'', ''SELL''} \<or> ''MARKET'' \<notin> {''MARKET'', ''LIMIT''} \<or> ?qty \<le> 0"
      by simp
    from create_order_invalid [OF this, of eng smb 0 None None None]
    have "close_triggered smb high low entry eng = eng"
      by (simp add: close_triggered_def en Let_def)
    moreover from False have "closing_fill smb entry eng = []"
      by (simp add: closing_fill_def en Let_def)
    ultimately show ?thesis by simp
  next
    case True
    have "?sd \<in> {''BUY'', ''SELL''}" and "''MARKET'' \<in> {''MARKET'', ''LIMIT''}" by simp_all
    from create_order_checked [OF this True, of eng smb 0 None None None]
    have c: "?c = (if fst ?chk
                   then ((True, OrderCreatedSuccessfully, Some ?ord),
                         eng\<lparr>uuid_next := Suc (uuid_next eng),
                             orders := dict_set (uuid_next eng) ?ord (orders eng)\<rparr>)
                   else ((False, snd ?chk, None), eng\<lparr>uuid_next := Suc (uuid_next eng)\<rparr>))"
      by (simp only: Let_def)
    show ?thesis
    proof (cases "fst ?chk")
      case False
      with c have "close_triggered smb high low entry eng = eng\<lparr>uuid_next := Suc (uuid_next eng)\<rparr>"
        by (simp add: close_triggered_def en Let_def)
      moreover from False chk have "closing_fill smb entry eng = []"
        by (simp add: closing_fill_def en Let_def)
      ultimately show ?thesis by simp
    next
      case ok: True
      let ?eng1 = "eng\<lparr>uuid_next := Suc (uuid_next eng),
                       orders := dict_set (uuid_next eng) ?ord (orders eng)\<rparr>"
      from ok c have ct: "close_triggered smb high low entry eng
                           = snd (execute_market_order ?eng1 ?ord trig high low)"
        by (simp add: close_triggered_def en Let_def)
      have l: "o_leverage ?ord \<noteq> Some 0" by (simp add: leverage_or_default_nonzero)
      from ok have b: "balances (balance_manager ?eng1) ''USDT'' \<noteq> None"
        using can_place_order_True [of "balance_manager eng"] by simp
      have s: "fst (execute_market_order ?eng1 ?ord trig high low)"
        by (rule execute_market_order_success [OF l b])
      have h: "order_history (close_triggered smb high low entry eng)
                 = order_history eng
                   @ [?ord\<lparr>executed_price := fill_price (o_side ?ord) (o_quantity ?ord) trig,
                           executed_quantity := o_quantity ?ord,
                           commission := calculate_commission
                             (o_quantity ?ord * fill_price (o_side ?ord) (o_quantity ?ord) trig),
                           status := FILLED\<rparr>]"
        unfolding ct execute_market_order_step_history using s by simp
      have f: "closing_fill smb entry eng
                 = [?ord\<lparr>executed_price := fill_price (o_side ?ord) (o_quantity ?ord) trig,
                           executed_quantity := o_quantity ?ord,
                           commission := calculate_commission
                             (o_quantity ?ord * fill_price (o_side ?ord) (o_quantity ?ord) trig),
                           status := FILLED\<rparr>]"
        using True ok chk
        by (simp add: closing_fill_def en Let_def position_side_value_long
              leverage_or_default_def)
      have o: "orders (close_triggered smb high low entry eng)
                 = dict_del (uuid_next eng) (dict_set (uuid_next eng) ?ord (orders eng))"
        unfolding ct execute_market_order_step_orders using s by simp
      from h f o set_dict_del_set [of "uuid_next eng" ?ord "orders eng"] show ?thesis
        by simp
    qed
  qed
qed

lemma closing_fill_member:
  assumes "ord \<in> set (closing_fill smb (a, kind, trig) eng)"
  shows "status ord = FILLED"
    and "executed_price ord = fill_price (o_side ord) (o_quantity ord) trig"
  using assms by (auto simp: closing_fill_def Let_def split: if_splits)

lemma tp_sl_loop_exact:
  "order_history (fold (close_triggered smb high low) entries eng)
     = order_history eng @ closing_fills smb high low entries eng
   \<and> set (orders (fold (close_triggered smb high low) entries eng)) \<subseteq> set (orders eng)"
proof (induction entries arbitrary: eng)
  case Nil
  then show ?case by simp
next
  case (Cons e entries)
  let ?eng1 = "close_triggered smb high low e eng"
  from Cons.IH [of ?eng1] close_triggered_exact [of smb high low e eng]
  show ?case by auto
qed

lemma closing_fills_member:
  "ord \<in> set (closing_fills smb high low entries eng) \<Longrightarrow>
     \<exists>(a, kind, trig) \<in> set entries.
        status ord = FILLED
        \<and> executed_price ord = fill_price (o_side ord) (o_quantity ord) trig"
proof (induction entries arbitrary: eng)
  case Nil
  then show ?case by simp
next
  case (Cons e entries)
  obtain a kind trig where e: "e = (a, kind, trig)" by (cases e) auto
  from Cons.prems consider "ord \<in> set (closing_fill smb (a, kind, trig) eng)"
    | "ord \<in> set (closing_fills smb high low entries (close_triggered smb high low e eng))"
    unfolding e by auto
  then show ?case
  proof cases
    case 1
    from closing_fill_member [OF 1] e show ?thesis by auto
  next
    case 2
    from Cons.IH [OF 2] show ?thesis by auto
  qed
qed

lemma pending_loop:
  "\<exists>pend. order_history (fold (\<lambda>ord e. snd (execute_market_order e ord close high low))
                             pending eng) = order_history eng @ pend
     \<and> (\<forall>x \<in> set pend. \<exists>ord0 \<in> set pending.
           x = ord0\<lparr>executed_price := fill_price (o_side ord0) (o_quantity ord0) close,
                    executed_quantity := o_quantity ord0,
                    commission := calculate_commission
                       (o_quantity ord0 * fill_price (o_side ord0) (o_quantity ord0) close),
                    status := FILLED\<rparr>)
     \<and> set (orders (fold (\<lambda>ord e. snd (execute_market_order e ord close high low))
                        pending eng)) \<subseteq> set (orders eng)"
proof (induction pending arbitrary: eng)
  case Nil
  then show ?case by simp
next
  case (Cons ord0 pending)
  let ?eng1 = "snd (execute_market_order eng ord0 close high low)"
  let ?f = "ord0\<lparr>executed_price := fill_price (o_side ord0) (o_quantity ord0) close,
                    executed_quantity := o_quantity ord0,
                    commission := calculate_commission
                       (o_quantity ord0 * fill_price (o_side ord0) (o_quantity ord0) close),
                    status := FILLED\<rparr>"
  from Cons.IH [of ?eng1] obtain pend where
    h: "order_history (fold (\<lambda>ord e. snd (execute_market_order e ord close high low))
                             pending ?eng1) = order_history ?eng1 @ pend"
    and p: "\<forall>x \<in> set pend. \<exists>ord0 \<in> set pending.
           x = ord0\<lparr>executed_price := fill_price (o_side ord0) (o_quantity ord0) close,
                    executed_quantity := o_quantity ord0,
                    commission := calculate_commission
                       (o_quantity ord0 * fill_price (o_side ord0) (o_quantity ord0) close),
                    status := FILLED\<rparr>"
    and o: "set (orders (fold (\<lambda>ord e. snd (execute_market_order e ord close high low))
                        pending ?eng1)) \<subseteq> set (orders ?eng1)"
    by blast
  have o1: "set (orders ?eng1) \<subseteq> set (orders eng)"
    using set_dict_del [of "order_id ord0" "orders eng"]
    by (simp add: execute_market_order_step_orders)
  show ?case
  proof (cases "fst (execute_market_order eng ord0 close high low)")
    case True
    then have "order_history ?eng1 = order_history eng @ [?f]"
      by (simp add: execute_market_order_step_history)
    with h p o o1 show ?thesis
      by (intro exI [of _ "?f # pend"]) auto
  next
    case False
    then have "order_history ?eng1 = order_history eng"
      by (simp add: execute_market_order_step_history)
    with h p o o1 show ?thesis
      by (intro exI [of _ pend]) auto
  qed
qed

text \<open>
  C4, as the code has it. \<open>process_candle\<close> marks the positions at the close, scans
  them, runs the closing loop over the entries of the scan and then the loop over the
  open MARKET orders of the symbol. The history after the candle is the history before
  it, then exactly the orders \<open>closing_fills\<close> of the closing loop, one for each entry
  of the scan whose request \<open>create_order\<close> accepts, in the order of the entries, then
  the orders \<open>pend\<close> of the second loop. Every closing order is filled inside the
  closing loop, and its execution price is the fill price of \<open>execute_market_order\<close>
  at the trigger price of its entry, which is the take-profit or the stop-loss price of
  the entry's position: the threshold plus the slippage for a closing BUY, minus the
  slippage for a closing SELL. The close price does not enter it. The slippage
  percentage is positive and a threshold of zero never triggers, so the execution price
  is never the threshold itself. No closing order reaches the second loop: every order
  that loop fills at the close price was open before the candle, and the candle leaves
  no order open that was not open before it.
\<close>

theorem closing_orders_fill_at_trigger:
  "(let eng1 = eng\<lparr>balance_manager := update_position_prices (balance_manager eng) smb close\<rparr>;
        entries = check_tp_sl_improved eng1 smb open_price high low close;
        closing = closing_fills smb high low entries eng1
    in \<exists>pend.
         order_history (process_candle eng smb open_price high low close volume)
           = order_history eng @ closing @ pend
         \<and> (\<forall>ord \<in> set closing. \<exists>(a, kind, trig) \<in> set entries.
               ((kind = TP \<and> take_profit_price (heap (balance_manager eng1) ! a) = Some trig)
                \<or> (kind = SL \<and> stop_loss_price (heap (balance_manager eng1) ! a) = Some trig))
               \<and> status ord = FILLED
               \<and> executed_price ord = fill_price (o_side ord) (o_quantity ord) trig
               \<and> executed_price ord \<noteq> trig)
         \<and> (\<forall>ord \<in> set pend. \<exists>(i, ord0) \<in> set (orders eng).
               o_symbol ord0 = smb \<and> order_type ord0 = MARKET
               \<and> ord = ord0\<lparr>executed_price := fill_price (o_side ord0) (o_quantity ord0) close,
                             executed_quantity := o_quantity ord0,
                             commission := calculate_commission
                               (o_quantity ord0
                                * fill_price (o_side ord0) (o_quantity ord0) close),
                             status := FILLED\<rparr>)
         \<and> set (orders (process_candle eng smb open_price high low close volume))
             \<subseteq> set (orders eng))"
proof -
  define eng1 where
    "eng1 = eng\<lparr>balance_manager := update_position_prices (balance_manager eng) smb close\<rparr>"
  define entries where "entries = check_tp_sl_improved eng1 smb open_price high low close"
  define eng2 where "eng2 = fold (close_triggered smb high low) entries eng1"
  define closing where "closing = closing_fills smb high low entries eng1"
  have pc: "process_candle eng smb open_price high low close volume
              = fold (\<lambda>ord e. snd (execute_market_order e ord close high low))
                     (pending_market_orders eng2 smb) eng2"
    by (simp add: process_candle_def Let_def eng2_def entries_def eng1_def)
  from tp_sl_loop_exact [of smb high low entries eng1]
  have h2: "order_history eng2 = order_history eng @ closing"
    and o2: "set (orders eng2) \<subseteq> set (orders eng)"
    by (simp_all add: eng2_def closing_def eng1_def)
  from pending_loop [of close high low "pending_market_orders eng2 smb" eng2] obtain pend where
    h3: "order_history (process_candle eng smb open_price high low close volume)
           = order_history eng2 @ pend"
    and p3: "\<forall>x \<in> set pend. \<exists>ord0 \<in> set (pending_market_orders eng2 smb).
           x = ord0\<lparr>executed_price := fill_price (o_side ord0) (o_quantity ord0) close,
                    executed_quantity := o_quantity ord0,
                    commission := calculate_commission
                       (o_quantity ord0 * fill_price (o_side ord0) (o_quantity ord0) close),
                    status := FILLED\<rparr>"
    and o3: "set (orders (process_candle eng smb open_price high low close volume))
               \<subseteq> set (orders eng2)"
    unfolding pc by blast
  have a: "\<forall>ord \<in> set closing. \<exists>(a, kind, trig) \<in> set entries.
               ((kind = TP \<and> take_profit_price (heap (balance_manager eng1) ! a) = Some trig)
                \<or> (kind = SL \<and> stop_loss_price (heap (balance_manager eng1) ! a) = Some trig))
               \<and> status ord = FILLED
               \<and> executed_price ord = fill_price (o_side ord) (o_quantity ord) trig
               \<and> executed_price ord \<noteq> trig"
  proof
    fix ord assume "ord \<in> set closing"
    then obtain a kind trig where m: "(a, kind, trig) \<in> set entries"
      and s: "status ord = FILLED"
      and e: "executed_price ord = fill_price (o_side ord) (o_quantity ord) trig"
      unfolding closing_def using closing_fills_member by blast
    from m have z: "trig \<noteq> 0"
      unfolding entries_def by (rule check_tp_sl_improved_nonzero)
    from m have k: "(kind = TP \<and> take_profit_price (heap (balance_manager eng1) ! a) = Some trig)
                \<or> (kind = SL \<and> stop_loss_price (heap (balance_manager eng1) ! a) = Some trig)"
      unfolding entries_def by (rule check_tp_sl_improved_entry)
    from e z have "executed_price ord \<noteq> trig" by (simp add: fill_price_neq)
    with m s e k
    show "\<exists>(a, kind, trig) \<in> set entries.
               ((kind = TP \<and> take_profit_price (heap (balance_manager eng1) ! a) = Some trig)
                \<or> (kind = SL \<and> stop_loss_price (heap (balance_manager eng1) ! a) = Some trig))
               \<and> status ord = FILLED
               \<and> executed_price ord = fill_price (o_side ord) (o_quantity ord) trig
               \<and> executed_price ord \<noteq> trig"
      by blast
  qed
  have b: "\<forall>ord \<in> set pend. \<exists>(i, ord0) \<in> set (orders eng).
               o_symbol ord0 = smb \<and> order_type ord0 = MARKET
               \<and> ord = ord0\<lparr>executed_price := fill_price (o_side ord0) (o_quantity ord0) close,
                             executed_quantity := o_quantity ord0,
                             commission := calculate_commission
                               (o_quantity ord0
                                * fill_price (o_side ord0) (o_quantity ord0) close),
                             status := FILLED\<rparr>"
  proof
    fix ord assume "ord \<in> set pend"
    with p3 obtain ord0 where m: "ord0 \<in> set (pending_market_orders eng2 smb)"
      and e: "ord = ord0\<lparr>executed_price := fill_price (o_side ord0) (o_quantity ord0) close,
                    executed_quantity := o_quantity ord0,
                    commission := calculate_commission
                       (o_quantity ord0 * fill_price (o_side ord0) (o_quantity ord0) close),
                    status := FILLED\<rparr>"
      by blast
    from m obtain i where "(i, ord0) \<in> set (orders eng2)"
      and q: "o_symbol ord0 = smb" "order_type ord0 = MARKET"
      by (auto simp: pending_market_orders_def)
    with o2 have "(i, ord0) \<in> set (orders eng)" by blast
    with q e show "\<exists>(i, ord0) \<in> set (orders eng).
               o_symbol ord0 = smb \<and> order_type ord0 = MARKET
               \<and> ord = ord0\<lparr>executed_price := fill_price (o_side ord0) (o_quantity ord0) close,
                             executed_quantity := o_quantity ord0,
                             commission := calculate_commission
                               (o_quantity ord0
                                * fill_price (o_side ord0) (o_quantity ord0) close),
                             status := FILLED\<rparr>"
      by blast
  qed
  from o2 o3 have c: "set (orders (process_candle eng smb open_price high low close volume))
             \<subseteq> set (orders eng)" by blast
  from h2 h3 have d: "order_history (process_candle eng smb open_price high low close volume)
           = order_history eng @ closing @ pend" by simp
  from a b c d show ?thesis
    unfolding Let_def eng1_def [symmetric] entries_def [symmetric] closing_def [symmetric]
    by blast
qed

text \<open>
  The theorem on the candle that breaches both thresholds of the LONG position of 100
  units: the scan has a take-profit entry at 1.05 and a stop-loss entry at 0.95, the
  candle adds exactly the two closing SELL orders to the history, filled at 1.049475 and
  at 0.949905, the second loop adds nothing, and no order is left open.
\<close>

lemma marked_long_tp_sl_scan:
  "check_tp_sl_improved
     (engine_long_tp_sl\<lparr>balance_manager :=
        update_position_prices (balance_manager engine_long_tp_sl) ''ADA-USDT'' 1\<rparr>)
     ''ADA-USDT'' 1 (110 / 100) (90 / 100) 1
   = [(0, TP, 105 / 100), (0, SL, 95 / 100)]"
  by (simp add: engine_long_tp_sl_eq candle_defs)

lemma long_tp_sl_closing_fills:
  "map (\<lambda>ord. (o_side ord, status ord, executed_price ord))
     (closing_fills ''ADA-USDT'' (110 / 100) (90 / 100) [(0, TP, 105 / 100), (0, SL, 95 / 100)]
        (engine_long_tp_sl\<lparr>balance_manager :=
           update_position_prices (balance_manager engine_long_tp_sl) ''ADA-USDT'' 1\<rparr>))
   = [(SELL, FILLED, 41979 / 40000), (SELL, FILLED, 189981 / 200000)]"
  by (simp add: engine_long_tp_sl_eq candle_defs closing_fill_def)
     (simp add: engine_defs fill_price_def)

lemma engine_after_candle_history_length:
  "length (order_history engine_after_candle) = 3
   \<and> length (order_history engine_long_tp_sl) = 1
   \<and> orders engine_long_tp_sl = []"
  by (simp add: engine_after_candle_def engine_long_tp_sl_eq candle_defs)
     (simp add: engine_defs)

theorem closing_orders_fill_at_trigger_witness:
  "order_history engine_after_candle
     = order_history engine_long_tp_sl
       @ closing_fills ''ADA-USDT'' (110 / 100) (90 / 100) [(0, TP, 105 / 100), (0, SL, 95 / 100)]
           (engine_long_tp_sl\<lparr>balance_manager :=
              update_position_prices (balance_manager engine_long_tp_sl) ''ADA-USDT'' 1\<rparr>)
   \<and> map (\<lambda>ord. (o_side ord, status ord, executed_price ord))
        (closing_fills ''ADA-USDT'' (110 / 100) (90 / 100) [(0, TP, 105 / 100), (0, SL, 95 / 100)]
           (engine_long_tp_sl\<lparr>balance_manager :=
              update_position_prices (balance_manager engine_long_tp_sl) ''ADA-USDT'' 1\<rparr>))
       = [(SELL, FILLED, 41979 / 40000), (SELL, FILLED, 189981 / 200000)]
   \<and> orders engine_after_candle = []"
proof -
  let ?eng1 = "engine_long_tp_sl\<lparr>balance_manager :=
              update_position_prices (balance_manager engine_long_tp_sl) ''ADA-USDT'' 1\<rparr>"
  let ?closing = "closing_fills ''ADA-USDT'' (110 / 100) (90 / 100)
                    [(0, TP, 105 / 100), (0, SL, 95 / 100)] ?eng1"
  note t = closing_orders_fill_at_trigger
             [where eng = engine_long_tp_sl and smb = "''ADA-USDT''" and close = 1
                and open_price = 1 and high = "110 / 100" and low = "90 / 100"
                and volume = 1000]
  from t obtain pend where
    h: "order_history engine_after_candle = order_history engine_long_tp_sl @ ?closing @ pend"
    and o: "set (orders engine_after_candle) \<subseteq> set (orders engine_long_tp_sl)"
    unfolding Let_def marked_long_tp_sl_scan engine_after_candle_def by blast
  define cl where "cl = ?closing"
  have l2: "length cl = 2"
    using arg_cong [OF long_tp_sl_closing_fills, of length]
    by (simp add: cl_def del: closing_fills.simps)
  from h have "length (order_history engine_after_candle)
                 = length (order_history engine_long_tp_sl) + length cl + length pend"
    by (simp add: cl_def del: closing_fills.simps)
  with l2 engine_after_candle_history_length have "pend = []" by auto
  with h o engine_after_candle_history_length long_tp_sl_closing_fills show ?thesis
    by (simp del: closing_fills.simps)
qed

text \<open>
  C4 as stated fails: the position's take profit is 1.05, the candle's high is 1.10, and
  the closing SELL order is executed at 1.049475, the threshold less the slippage of
  0.05 percent.
\<close>

theorem closing_order_price_counterexample:
  "take_profit_price (heap (balance_manager engine_long_tp) ! 0) = Some (105 / 100)
   \<and> map (\<lambda>ord. (o_side ord, executed_quantity ord, executed_price ord, status ord))
          (order_history engine_tp_candle)
     = [(BUY, 100, 2001 / 2000, FILLED), (SELL, 100, 41979 / 40000, FILLED)]
   \<and> (41979 / 40000 :: real) \<noteq> 105 / 100"
  by (simp add: engine_tp_candle_def engine_long_tp_eq candle_defs) (simp add: engine_defs)

end
